theory Spec2Isabelle
  imports Complex_Main "HOL-Library.AList"
begin

section \<open>Python values, exceptions and the outside world\<close>

text \<open>
  The two cloud functions (\<^verbatim>\<open>splitter/main.py\<close> and \<^verbatim>\<open>video_dubber/main.py\<close>) are glue
  code around Pub/Sub, Google Sheets, Cloud Storage, Cloud Logging and the Ariel dubbing
  engine. The embedding keeps the control flow of the Python (every \<^verbatim>\<open>try\<close>,
  \<^verbatim>\<open>except\<close> and \<^verbatim>\<open>finally\<close>, every dictionary lookup that can raise) and makes the
  outside world a parameter.

  An exception is represented by its text \<^verbatim>\<open>str(e)\<close>, the only thing the code ever reads
  from a caught exception. Both files catch \<^verbatim>\<open>Exception\<close>; interrupts and
  \<^verbatim>\<open>SystemExit\<close> are outside the model. A string is a list of characters, one per code
  point.
\<close>

type_synonym exn = string

datatype pyval =
    PNone
  | PBool bool
  | PInt int
  | PFloat real
  | PStr string
  | PList "pyval list"
  | PDict "(string \<times> pyval) list"

text \<open>A dictionary with string keys, in insertion order (tuples and sets read by
  \<^verbatim>\<open>ast.literal_eval\<close> are kept as \<open>PList\<close>: the code only tests and iterates them).\<close>

type_synonym pydict = "(string \<times> pyval) list"

fun truthy :: "pyval \<Rightarrow> bool" where
  "truthy PNone = False"
| "truthy (PBool b) = b"
| "truthy (PInt i) = (i \<noteq> 0)"
| "truthy (PFloat r) = (r \<noteq> 0)"
| "truthy (PStr s) = (s \<noteq> [])"
| "truthy (PList xs) = (xs \<noteq> [])"
| "truthy (PDict d) = (d \<noteq> [])"

fun type_name :: "pyval \<Rightarrow> string" where
  "type_name PNone = ''NoneType''"
| "type_name (PBool b) = ''bool''"
| "type_name (PInt i) = ''int''"
| "type_name (PFloat r) = ''float''"
| "type_name (PStr s) = ''str''"
| "type_name (PList xs) = ''list''"
| "type_name (PDict d) = ''dict''"

text \<open>\<^verbatim>\<open>d[k]\<close> on a dictionary: a missing key raises \<^verbatim>\<open>KeyError(k)\<close>, whose text is the
  quoted key. \<^verbatim>\<open>d[k] = v\<close> replaces the value in place or appends the key.\<close>

definition key_error :: "string \<Rightarrow> exn" where
  "key_error k = [CHR 0x27] @ k @ [CHR 0x27]"

definition getitem :: "(string \<times> 'v) list \<Rightarrow> string \<Rightarrow> exn + 'v" where
  "getitem d k = (case map_of d k of None \<Rightarrow> Inl (key_error k) | Some v \<Rightarrow> Inr v)"

definition setitem :: "pydict \<Rightarrow> string \<Rightarrow> pyval \<Rightarrow> pydict" where
  "setitem d k v = AList.update k v d"

text \<open>A method of \<^verbatim>\<open>str\<close> called on a value that is not one raises \<^verbatim>\<open>AttributeError\<close>.\<close>

definition attribute_error :: "pyval \<Rightarrow> string \<Rightarrow> exn" where
  "attribute_error v a =
     [CHR 0x27] @ type_name v @ [CHR 0x27] @ '' object has no attribute '' @ [CHR 0x27] @ a @ [CHR 0x27]"

fun as_str :: "pyval \<Rightarrow> string \<Rightarrow> exn + string" where
  "as_str (PStr s) a = Inr s"
| "as_str v a = Inl (attribute_error v a)"

text \<open>\<^verbatim>\<open>for x in v\<close>: the elements of a list, the characters of a string, the keys of a
  dictionary; anything else is not iterable.\<close>

fun py_iter :: "pyval \<Rightarrow> exn + pyval list" where
  "py_iter (PList xs) = Inr xs"
| "py_iter (PStr s) = Inr (map (\<lambda>c. PStr [c]) s)"
| "py_iter (PDict d) = Inr (map (\<lambda>kv. PStr (fst kv)) d)"
| "py_iter v = Inl ([CHR 0x27] @ type_name v @ [CHR 0x27] @ '' object is not iterable'')"

subsection \<open>Strings\<close>

text \<open>\<^verbatim>\<open>s.split(c)\<close> for a one-character separator: never empty, \<^verbatim>\<open>"".split("/") == [""]\<close>.\<close>

fun split_on :: "char \<Rightarrow> string \<Rightarrow> string list" where
  "split_on c [] = [[]]"
| "split_on c (x # xs) =
     (if x = c then [] # split_on c xs
      else (case split_on c xs of
              [] \<Rightarrow> [[x]]
            | w # ws \<Rightarrow> (x # w) # ws))"

text \<open>\<^verbatim>\<open>sep.join(xs)\<close>.\<close>

fun join :: "string \<Rightarrow> string list \<Rightarrow> string" where
  "join sep [] = []"
| "join sep [x] = x"
| "join sep (x # y # ys) = x @ sep @ join sep (y # ys)"

text \<open>\<^verbatim>\<open>s.lower()\<close> on the ASCII letters (other characters are left as they are).\<close>

definition lower_char :: "char \<Rightarrow> char" where
  "lower_char c =
     (case map_of (zip ''ABCDEFGHIJKLMNOPQRSTUVWXYZ'' ''abcdefghijklmnopqrstuvwxyz'') c of
        None \<Rightarrow> c
      | Some l \<Rightarrow> l)"

definition lower :: "string \<Rightarrow> string" where
  "lower s = map lower_char s"

text \<open>\<^verbatim>\<open>sub in s\<close> on strings.\<close>

fun contains_str :: "string \<Rightarrow> string \<Rightarrow> bool" where
  "contains_str sub [] = (sub = [])"
| "contains_str sub (c # cs) = (take (length sub) (c # cs) = sub \<or> contains_str sub cs)"

text \<open>\<^verbatim>\<open>x in v\<close> for a string \<open>x\<close>: substring of a string, element of a list, key of a
  dictionary.\<close>

fun py_contains :: "string \<Rightarrow> pyval \<Rightarrow> exn + bool" where
  "py_contains x (PStr s) = Inr (contains_str x s)"
| "py_contains x (PList xs) = Inr (PStr x \<in> set xs)"
| "py_contains x (PDict d) = Inr (x \<in> fst ` set d)"
| "py_contains x v =
     Inl (''argument of type '' @ [CHR 0x27] @ type_name v @ [CHR 0x27] @ '' is not iterable'')"

text \<open>\<^verbatim>\<open>str(n)\<close> for an integer.\<close>

definition digit :: "nat \<Rightarrow> char" where
  "digit n = ''0123456789'' ! n"

fun str_nat :: "nat \<Rightarrow> string" where
  "str_nat n = (if n < 10 then [digit n] else str_nat (n div 10) @ [digit (n mod 10)])"

declare str_nat.simps [simp del]

definition str_int :: "int \<Rightarrow> string" where
  "str_int i = (if i < 0 then CHR ''-'' # str_nat (nat (- i)) else str_nat (nat i))"

subsection \<open>The engine handle, messages and external calls\<close>

text \<open>The keyword arguments \<^verbatim>\<open>_configure_dubber\<close> passes to \<^verbatim>\<open>Dubber(...)\<close>, each with the
  type the Python expression has. The engine class belongs to the Ariel library, not to
  this repository: an engine is known by the arguments it was built from, and everything
  it does or answers comes from the world.\<close>

record dubber =
  input_file :: string
  output_directory :: string
  advertiser_name :: pyval
  original_language :: pyval
  target_language :: pyval
  number_of_speakers :: int
  gemini_token :: pyval
  hugging_face_token :: pyval
  no_dubbing_phrases :: pyval
  diarization_instructions :: pyval
  translation_instructions :: pyval
  merge_utterances :: pyval
  minimum_merge_threshold :: real
  preferred_voices :: pyval
  adjust_speed :: bool
  vocals_volume_adjustment :: real
  background_volume_adjustment :: real
  clean_up :: pyval
  gemini_model_name :: pyval
  temperature :: real
  top_p :: real
  top_k :: int
  max_output_tokens :: int
  use_elevenlabs :: bool
  elevenlabs_token :: pyval
  elevenlabs_clone_voices :: bool
  with_verification :: bool

text \<open>The job payload the splitter publishes.\<close>

record payload =
  pl_worksheet_url :: pyval
  pl_line_config :: pydict
  pl_tool_config :: pydict
  pl_status_columns :: "(string \<times> string) list"

text \<open>The dictionary both exception handlers build for the structured log line.\<close>

record logging_payload =
  lp_worksheet_url :: "pyval option"
  lp_status :: string
  lp_message :: string
  lp_success :: bool

text \<open>The decoded Pub/Sub message of the worker, \<^verbatim>\<open>request_json\<close>: a JSON object in
  which any of the four fields may be missing.\<close>

record request =
  rq_worksheet_url :: "pyval option"
  rq_tool_config :: "pydict option"
  rq_line_config :: "pydict option"
  rq_status_columns :: "(string \<times> string) list option"

text \<open>Every call that leaves the process. \<open>LogFailure tag p\<close> is
  \<^verbatim>\<open>logger.log_text(f"{tag}: {json.dumps(p)}")\<close>; \<open>Update rng cells\<close> is
  \<^verbatim>\<open>worksheet.update(rng, [cells])\<close>.\<close>

datatype call =
    NewPublisherClient
  | Publish string string payload
  | Log string
  | LogText string
  | LogFailure string logging_payload
  | InitSheetClient
  | OpenByUrl pyval
  | Worksheet pyval
  | Update string "string list"
  | Makedirs string
  | Download string string string
  | NewDubber dubber
  | DubAdFromScriptElevenlabs dubber pyval pyval pyval
  | DubAdFromScriptGoogle dubber pyval pyval pyval
  | DubAd dubber
  | Upload pyval string string
  | CleanUp dubber
  | NewLoggingClient

text \<open>
  The history of a run is the list of calls made so far, each with its outcome
  (\<open>None\<close>: it returned; \<open>Some e\<close>: it raised \<open>e\<close>). The world answers a call from the
  history, so the same call may succeed once and fail later. What the Python runtime and
  the libraries compute from dynamically typed values (\<^verbatim>\<open>ast.literal_eval\<close>,
  \<^verbatim>\<open>json.loads\<close>, \<^verbatim>\<open>int\<close>, \<^verbatim>\<open>float\<close>, \<^verbatim>\<open>str.format\<close>, subscripting a decoded
  value, the text of a value that is not a string, decoding the base64 message into
  \<^verbatim>\<open>request_json\<close>) is a parameter as well.
\<close>

type_synonym event = "call \<times> exn option"

record world =
  respond :: "event list \<Rightarrow> call \<Rightarrow> exn option"
  now :: "event list \<Rightarrow> string"
  gfile_exists :: "event list \<Rightarrow> string \<Rightarrow> exn + bool"
  dubber_use_elevenlabs :: "event list \<Rightarrow> dubber \<Rightarrow> exn + bool"
  video_file :: "event list \<Rightarrow> dubber \<Rightarrow> exn + string"
  literal_eval :: "pyval \<Rightarrow> exn + pyval"
  json_loads :: "pyval \<Rightarrow> exn + pyval"
  py_int :: "pyval \<Rightarrow> exn + int"
  py_float :: "pyval \<Rightarrow> exn + real"
  py_getitem :: "pyval \<Rightarrow> pyval \<Rightarrow> exn + pyval"
  py_repr :: "pyval \<Rightarrow> string"
  str_format :: "string \<Rightarrow> pydict \<Rightarrow> exn + string"
  decode_request :: "string \<Rightarrow> exn + request"

text \<open>A step of the program: from the history to a result or an exception, and the
  extended history.\<close>

type_synonym 'a step = "event list \<Rightarrow> (exn + 'a) \<times> event list"

definition lift :: "exn + 'a \<Rightarrow> 'a step" where
  "lift r tr = (r, tr)"

definition bind :: "'a step \<Rightarrow> ('a \<Rightarrow> 'b step) \<Rightarrow> 'b step" where
  "bind m f tr = (case m tr of (Inl e, tr') \<Rightarrow> (Inl e, tr') | (Inr x, tr') \<Rightarrow> f x tr')"

definition perform :: "world \<Rightarrow> call \<Rightarrow> unit step" where
  "perform w c tr =
     (let r = respond w tr c
      in (case r of None \<Rightarrow> Inr () | Some e \<Rightarrow> Inl e, tr @ [(c, r)]))"

section \<open>The splitter\<close>

definition STATUS_PROCESSING :: string where
  "STATUS_PROCESSING = ''PROCESSING''"

text \<open>\<^verbatim>\<open>STATUS_FAILED\<close> has the same value in both files.\<close>

definition STATUS_FAILED :: string where
  "STATUS_FAILED = ''FAILED''"

definition STATUS_COLUMNS :: "(string \<times> string) list" where
  "STATUS_COLUMNS =
     [(''STATUS_COLUMN'', ''P''), (''UPDATED_AT_COLUMN'', ''Q''), (''MESSAGE_COLUMN'', ''R'')]"

definition FAILED_STATUS_FOR_REPORTING_SPLITTER :: string where
  "FAILED_STATUS_FOR_REPORTING_SPLITTER = ''ERROR_IN_ARIEL_SPLITTER''"

definition VOICE_PROVIDER_ELEVENLABS :: string where
  "VOICE_PROVIDER_ELEVENLABS = ''ElevenLabs''"

definition VOICE_PROVIDER_GOOGLE :: string where
  "VOICE_PROVIDER_GOOGLE = ''Google''"

definition DEFAULT_DUBBING_CONFIG :: "(string \<times> string) list" where
  "DEFAULT_DUBBING_CONFIG =
     [(''campaign_name'', ''Default''),
      (''custom_tag'', ''default_tag''),
      (''original_language'', ''''),
      (''target_language'', ''[]''),
      (''video_url'', ''''),
      (''script'', ''[]''),
      (''target_gender'', ''''),
      (''voice_provider'', VOICE_PROVIDER_GOOGLE),
      (''clone_original_voices'', ''False''),
      (''preferred_voice_family'', ''[]''),
      (''voices'', ''[]''),
      (''output_naming_convention'', ''''),
      (''output_bucket'', ''''),
      (''status'', ''''),
      (''output_file_path'', ''''),
      (''number_of_speakers'', ''1''),
      (''diarization_instructions'', ''''),
      (''translation_instructions'', ''''),
      (''no_dubbing_phrases'', ''[]''),
      (''merge_utterances'', ''True''),
      (''minimum_merge_threshold'', ''0.001''),
      (''adjust_speed'', ''True''),
      (''vocals_volume_adjustment'', ''5.0''),
      (''background_volume_adjustment'', ''0.0''),
      (''gemini_model_name'', ''gemini-1.5-flash''),
      (''gemini_temperature'', ''1.0''),
      (''gemini_top_p'', ''0.95''),
      (''gemini_top_k'', ''64''),
      (''gemini_maximum_output_tokens'', ''8192''),
      (''clean_up'', ''False''),
      (''with_verification'', ''False''),
      (''tts_params'', ''{}'')]"

subsection \<open>Reading the row configuration\<close>

text \<open>
  The inner loop of \<^verbatim>\<open>_read_dubbing_config_from_google_sheet\<close>:
  \<^verbatim>\<open>line[k] = default_config[k] if (k not in row or not row[k]) else row[k]\<close>
  for every key of the default template. A row of the data frame is the map from column
  label to cell text (the cells gspread returns are strings, and the labels of a record
  are distinct).
\<close>

definition merged_line :: "(string \<times> string) list \<Rightarrow> (string \<rightharpoonup> string) \<Rightarrow> (string \<times> string) list" where
  "merged_line default_config row =
     map (\<lambda>(k, d). (k, case row k of None \<Rightarrow> d | Some v \<Rightarrow> if v = [] then d else v))
       default_config"

text \<open>\<open>data\<close> is what \<^verbatim>\<open>_load_data_from_google_sheet\<close> returned, row by row.\<close>

definition read_dubbing_config_from_google_sheet ::
  "(string \<times> string) list \<Rightarrow> (string \<rightharpoonup> string) list \<Rightarrow> (string \<times> string) list list" where
  "read_dubbing_config_from_google_sheet default_config data =
     map (merged_line default_config) data"

subsection \<open>Publishing the rows\<close>

text \<open>The cell range \<^verbatim>\<open>f"{cols['STATUS_COLUMN']}{row}:{cols['MESSAGE_COLUMN']}{row}"\<close>.\<close>

definition status_range :: "(string \<times> string) list \<Rightarrow> int \<Rightarrow> exn + string" where
  "status_range cols row =
     (case getitem cols ''STATUS_COLUMN'' of
        Inl e \<Rightarrow> Inl e
      | Inr c1 \<Rightarrow>
          (case getitem cols ''MESSAGE_COLUMN'' of
             Inl e \<Rightarrow> Inl e
           | Inr c2 \<Rightarrow> Inr (c1 @ str_int row @ '':'' @ c2 @ str_int row)))"

text \<open>\<^verbatim>\<open>_update_google_sheet\<close> of the splitter: the columns are the module constant.\<close>

definition update_google_sheet_splitter ::
  "world \<Rightarrow> pyval \<Rightarrow> pyval \<Rightarrow> int \<Rightarrow> string \<Rightarrow> string \<Rightarrow> unit step" where
  "update_google_sheet_splitter w url worksheet_name row status message tr =
     (let current_datetime = now w tr
      in bind (perform w (OpenByUrl url)) (\<lambda>_.
         bind (perform w (Worksheet worksheet_name)) (\<lambda>_.
         bind (lift (status_range STATUS_COLUMNS row)) (\<lambda>rng.
         perform w (Update rng [status, current_datetime, message])))) tr)"

definition publish_pubsub :: "world \<Rightarrow> string \<Rightarrow> string \<Rightarrow> payload \<Rightarrow> unit step" where
  "publish_pubsub w project_id pubsub_topic pl = perform w (Publish project_id pubsub_topic pl)"

text \<open>The dictionary literal of the handler; the tag differs between the two files.\<close>

definition failure_payload :: "string \<Rightarrow> pyval \<Rightarrow> exn \<Rightarrow> logging_payload" where
  "failure_payload tag worksheet_url e =
     \<lparr>lp_worksheet_url = (if truthy worksheet_url then Some worksheet_url else None),
      lp_status = tag,
      lp_message =
        (if length e > 1 then e
         else ''Check you shared the spreadsheet with the service account''),
      lp_success = False\<rparr>"

text \<open>
  One iteration of the loop of \<^verbatim>\<open>_process_lines\<close>. \<open>pending\<close> is an exception raised
  inside the \<^verbatim>\<open>except\<close> block: the \<^verbatim>\<open>finally\<close> block still runs, with the variables as
  they were when it was raised, and the exception leaves the loop afterwards unless the
  \<^verbatim>\<open>finally\<close> block raises one of its own.
\<close>

definition process_lines_body ::
  "world \<Rightarrow> string \<Rightarrow> string \<Rightarrow> pydict \<Rightarrow> pyval \<Rightarrow> nat \<times> pydict \<Rightarrow> unit step" where
  "process_lines_body w project_id pubsub_topic tool_config worksheet_url rl tr =
     (let row_num = fst rl;
          line_config = setitem (snd rl) ''row_num'' (PInt (int row_num));
          pl = \<lparr>pl_worksheet_url = worksheet_url, pl_line_config = line_config,
                pl_tool_config = tool_config, pl_status_columns = STATUS_COLUMNS\<rparr>;
          (published, tr1) = publish_pubsub w project_id pubsub_topic pl tr;
          (status, message, pending, tr2) =
            (case published of
               Inr _ \<Rightarrow> (STATUS_PROCESSING, '''', None, tr1)
             | Inl e \<Rightarrow>
                 (let p = failure_payload FAILED_STATUS_FOR_REPORTING_SPLITTER worksheet_url e;
                      (logged, tr') =
                        bind (perform w (Log e)) (\<lambda>_.
                        perform w (LogFailure FAILED_STATUS_FOR_REPORTING_SPLITTER p)) tr1
                  in (case logged of
                        Inl e' \<Rightarrow> (STATUS_PROCESSING, '''', Some e', tr')
                      | Inr _ \<Rightarrow> (STATUS_FAILED, lp_message p, None, tr'))));
          (written, tr3) =
            bind (lift (getitem tool_config ''DUBBING_CONFIG'')) (\<lambda>worksheet_name.
            update_google_sheet_splitter w worksheet_url worksheet_name (int row_num + 2) status
              (if status = STATUS_FAILED then message else '''')) tr2
      in (case written of
            Inl e'' \<Rightarrow> (Inl e'', tr3)
          | Inr _ \<Rightarrow> (case pending of Some e' \<Rightarrow> (Inl e', tr3) | None \<Rightarrow> (Inr (), tr3))))"

fun process_lines_loop ::
  "world \<Rightarrow> string \<Rightarrow> string \<Rightarrow> pydict \<Rightarrow> pyval \<Rightarrow> (nat \<times> pydict) list \<Rightarrow> unit step" where
  "process_lines_loop w project_id pubsub_topic tool_config worksheet_url [] tr = (Inr (), tr)"
| "process_lines_loop w project_id pubsub_topic tool_config worksheet_url (rl # rest) tr =
     (case process_lines_body w project_id pubsub_topic tool_config worksheet_url rl tr of
        (Inl e, tr') \<Rightarrow> (Inl e, tr')
      | (Inr _, tr') \<Rightarrow>
          process_lines_loop w project_id pubsub_topic tool_config worksheet_url rest tr')"

definition process_lines ::
  "world \<Rightarrow> string \<Rightarrow> string \<Rightarrow> pydict \<Rightarrow> pydict list \<Rightarrow> pyval \<Rightarrow> unit step" where
  "process_lines w project_id pubsub_topic tool_config dubbing_config worksheet_url =
     bind (perform w NewPublisherClient) (\<lambda>_.
     process_lines_loop w project_id pubsub_topic tool_config worksheet_url
       (enumerate 0 dubbing_config))"

section \<open>The worker\<close>

definition STATUS_SUCCESS :: string where
  "STATUS_SUCCESS = ''OK''"

definition FAILED_STATUS_FOR_REPORTING_DUBBER :: string where
  "FAILED_STATUS_FOR_REPORTING_DUBBER = ''ERROR_IN_ARIEL_VIDEO_DUBBER''"

text \<open>\<^verbatim>\<open>_update_google_sheet\<close> of the worker: the columns come with the message. The
  range is formatted after the worksheet has been opened.\<close>

definition update_google_sheet ::
  "world \<Rightarrow> pyval \<Rightarrow> pyval \<Rightarrow> int \<Rightarrow> (string \<times> string) list \<Rightarrow> string \<Rightarrow> string \<Rightarrow> unit step" where
  "update_google_sheet w url worksheet_name row cols status message tr =
     (let current_datetime = now w tr
      in bind (perform w (OpenByUrl url)) (\<lambda>_.
         bind (perform w (Worksheet worksheet_name)) (\<lambda>_.
         bind (lift (status_range cols row)) (\<lambda>rng.
         perform w (Update rng [status, current_datetime, message])))) tr)"

text \<open>\<^verbatim>\<open>f"{v}"\<close>: a string as it is, any other value as the runtime prints it.\<close>

definition format_value :: "world \<Rightarrow> pyval \<Rightarrow> string" where
  "format_value w v = (case v of PStr s \<Rightarrow> s | _ \<Rightarrow> py_repr w v)"

definition build_file_name :: "world \<Rightarrow> pydict \<Rightarrow> string \<Rightarrow> exn + string" where
  "build_file_name w line_config file_name =
     (case getitem line_config ''output_naming_convention'' of
        Inl e \<Rightarrow> Inl e
      | Inr v \<Rightarrow>
          (case as_str v ''format'' of
             Inl e \<Rightarrow> Inl e
           | Inr convention \<Rightarrow>
               (case str_format w convention line_config of
                  Inl e \<Rightarrow> Inl e
                | Inr path \<Rightarrow> Inr (path @ ''.'' @ last (split_on CHR ''.'' file_name)))))"

definition upload_file_to_gcs :: "world \<Rightarrow> pyval \<Rightarrow> string \<Rightarrow> string \<Rightarrow> string step" where
  "upload_file_to_gcs w bucket_name source_file_name destination_blob_name =
     bind (perform w (Upload bucket_name source_file_name destination_blob_name)) (\<lambda>_.
     lift (Inr (''gs://'' @ format_value w bucket_name @ ''/'' @ destination_blob_name)))"

definition download_file_from_gcs :: "world \<Rightarrow> string \<Rightarrow> string \<Rightarrow> string \<Rightarrow> unit step" where
  "download_file_from_gcs w bucket_name source_blob_name destination_file_name =
     perform w (Download bucket_name source_blob_name destination_file_name)"

text \<open>\<^verbatim>\<open>v.lower() == "true"\<close>.\<close>

definition lower_is_true :: "pyval \<Rightarrow> exn + bool" where
  "lower_is_true v = (case as_str v ''lower'' of Inl e \<Rightarrow> Inl e | Inr s \<Rightarrow> Inr (lower s = ''true''))"

text \<open>The keyword arguments of \<^verbatim>\<open>Dubber(...)\<close> in \<^verbatim>\<open>_configure_dubber\<close>, evaluated in
  the order they are written; the first lookup or conversion that raises ends the
  evaluation.\<close>

definition sbind :: "exn + 'a \<Rightarrow> ('a \<Rightarrow> exn + 'b) \<Rightarrow> exn + 'b" where
  "sbind r f = (case r of Inl e \<Rightarrow> Inl e | Inr x \<Rightarrow> f x)"

definition dubber_arguments :: "world \<Rightarrow> pydict \<Rightarrow> pydict \<Rightarrow> string \<Rightarrow> string \<Rightarrow> exn + dubber" where
  "dubber_arguments w tool_config line_config output_dir download_file_path =
     sbind (getitem line_config ''campaign_name'') (\<lambda>a_advertiser_name.
     sbind (getitem line_config ''original_language'') (\<lambda>a_original_language.
     sbind (getitem line_config ''target_language'') (\<lambda>a_target_language.
     sbind (getitem line_config ''number_of_speakers'') (\<lambda>v_number_of_speakers.
     sbind (py_int w v_number_of_speakers) (\<lambda>a_number_of_speakers.
     sbind (getitem tool_config ''AI_STUDIO_API_KEY'') (\<lambda>a_gemini_token.
     sbind (getitem tool_config ''HUGGING_FACE_ACCESS_TOKEN'') (\<lambda>a_hugging_face_token.
     sbind (getitem line_config ''no_dubbing_phrases'') (\<lambda>v_no_dubbing_phrases.
     sbind (literal_eval w v_no_dubbing_phrases) (\<lambda>a_no_dubbing_phrases.
     sbind (getitem line_config ''diarization_instructions'') (\<lambda>a_diarization_instructions.
     sbind (getitem line_config ''translation_instructions'') (\<lambda>a_translation_instructions.
     sbind (getitem line_config ''merge_utterances'') (\<lambda>a_merge_utterances.
     sbind (getitem line_config ''minimum_merge_threshold'') (\<lambda>v_minimum_merge_threshold.
     sbind (py_float w v_minimum_merge_threshold) (\<lambda>a_minimum_merge_threshold.
     sbind (getitem line_config ''preferred_voice_family'') (\<lambda>v_preferred_voices.
     sbind (literal_eval w v_preferred_voices) (\<lambda>a_preferred_voices.
     sbind (getitem line_config ''adjust_speed'') (\<lambda>v_adjust_speed.
     sbind (lower_is_true v_adjust_speed) (\<lambda>a_adjust_speed.
     sbind (getitem line_config ''vocals_volume_adjustment'') (\<lambda>v_vocals_volume_adjustment.
     sbind (py_float w v_vocals_volume_adjustment) (\<lambda>a_vocals_volume_adjustment.
     sbind (getitem line_config ''background_volume_adjustment'') (\<lambda>v_background_volume_adjustment.
     sbind (py_float w v_background_volume_adjustment) (\<lambda>a_background_volume_adjustment.
     sbind (getitem line_config ''clean_up'') (\<lambda>a_clean_up.
     sbind (getitem line_config ''gemini_model_name'') (\<lambda>a_gemini_model_name.
     sbind (getitem line_config ''gemini_temperature'') (\<lambda>v_temperature.
     sbind (py_float w v_temperature) (\<lambda>a_temperature.
     sbind (getitem line_config ''gemini_top_p'') (\<lambda>v_top_p.
     sbind (py_float w v_top_p) (\<lambda>a_top_p.
     sbind (getitem line_config ''gemini_top_k'') (\<lambda>v_top_k.
     sbind (py_int w v_top_k) (\<lambda>a_top_k.
     sbind (getitem line_config ''gemini_maximum_output_tokens'') (\<lambda>v_max_output_tokens.
     sbind (py_int w v_max_output_tokens) (\<lambda>a_max_output_tokens.
     sbind (getitem line_config ''voice_provider'') (\<lambda>v_voice_provider.
     sbind (py_contains VOICE_PROVIDER_ELEVENLABS v_voice_provider) (\<lambda>a_use_elevenlabs.
     sbind (getitem tool_config ''ELEVEN_LABS_API_KEY'') (\<lambda>a_elevenlabs_token.
     sbind (getitem line_config ''clone_original_voices'') (\<lambda>v_clone_original_voices.
     sbind (lower_is_true v_clone_original_voices) (\<lambda>a_elevenlabs_clone_voices.
     sbind (getitem line_config ''with_verification'') (\<lambda>v_with_verification.
     sbind (lower_is_true v_with_verification) (\<lambda>a_with_verification.
     Inr \<lparr>input_file = download_file_path,
            output_directory = output_dir,
            advertiser_name = a_advertiser_name,
            original_language = a_original_language,
            target_language = a_target_language,
            number_of_speakers = a_number_of_speakers,
            gemini_token = a_gemini_token,
            hugging_face_token = a_hugging_face_token,
            no_dubbing_phrases = a_no_dubbing_phrases,
            diarization_instructions = a_diarization_instructions,
            translation_instructions = a_translation_instructions,
            merge_utterances = a_merge_utterances,
            minimum_merge_threshold = a_minimum_merge_threshold,
            preferred_voices = a_preferred_voices,
            adjust_speed = a_adjust_speed,
            vocals_volume_adjustment = a_vocals_volume_adjustment,
            background_volume_adjustment = a_background_volume_adjustment,
            clean_up = a_clean_up,
            gemini_model_name = a_gemini_model_name,
            temperature = a_temperature,
            top_p = a_top_p,
            top_k = a_top_k,
            max_output_tokens = a_max_output_tokens,
            use_elevenlabs = a_use_elevenlabs,
            elevenlabs_token = a_elevenlabs_token,
            elevenlabs_clone_voices = a_elevenlabs_clone_voices,
            with_verification = a_with_verification\<rparr>
     )))))))))))))))))))))))))))))))))))))))"

text \<open>\<^verbatim>\<open>_configure_dubber\<close>.\<close>

definition configure_dubber :: "world \<Rightarrow> pydict \<Rightarrow> pydict \<Rightarrow> string \<Rightarrow> dubber step" where
  "configure_dubber w tool_config line_config output_dir =
     bind (lift (getitem line_config ''video_url'')) (\<lambda>video_url.
     bind (lift (as_str video_url ''split'')) (\<lambda>url.
     let bucket = hd (split_on CHR ''/'' url);
         file_name = join ''/'' (tl (split_on CHR ''/'' url))
     in
     bind (\<lambda>tr. (gfile_exists w tr output_dir, tr)) (\<lambda>there.
     bind (if \<not> there then perform w (Makedirs output_dir) else lift (Inr ())) (\<lambda>_.
     let download_file_path = output_dir @ ''/'' @ last (split_on CHR ''/'' file_name)
     in
     bind (download_file_from_gcs w bucket file_name download_file_path) (\<lambda>_.
     bind (lift (dubber_arguments w tool_config line_config output_dir download_file_path)) (\<lambda>d.
     bind (perform w (NewDubber d)) (\<lambda>_.
     lift (Inr d))))))))"

text \<open>The script branch of the loop body, from \<^verbatim>\<open>if dubber.use_elevenlabs\<close> to the call of
  \<^verbatim>\<open>_dub_ad_from_script_elevenlabs\<close> or \<^verbatim>\<open>_dub_ad_from_script_google\<close>: the attribute is read
  from the engine, then the arguments are evaluated from left to right.\<close>

definition dub_ad_from_script :: "world \<Rightarrow> dubber \<Rightarrow> pydict \<Rightarrow> pyval \<Rightarrow> unit step" where
  "dub_ad_from_script w d line_config voices =
     bind (\<lambda>tr. (dubber_use_elevenlabs w tr d, tr)) (\<lambda>elevenlabs.
     bind (lift (getitem line_config ''script'')) (\<lambda>script.
     bind (lift (getitem line_config ''tts_params'')) (\<lambda>v_tts_params.
     bind (lift (json_loads w v_tts_params)) (\<lambda>tts_params.
     bind (lift (getitem line_config ''target_language'')) (\<lambda>language.
     bind (lift (py_getitem w voices language)) (\<lambda>voice.
     if elevenlabs
     then perform w (DubAdFromScriptElevenlabs d script tts_params voice)
     else perform w (DubAdFromScriptGoogle d script tts_params voice)))))))"

text \<open>The three statements that end both branches of the loop body: read the name of the
  dubbed file, build the destination name, upload. The result is the path appended to
  \<^verbatim>\<open>output_files_paths\<close>.\<close>

definition upload_dubbed_file :: "world \<Rightarrow> dubber \<Rightarrow> pydict \<Rightarrow> string step" where
  "upload_dubbed_file w d line_config =
     bind (\<lambda>tr. (video_file w tr d, tr)) (\<lambda>dubbed_file_name.
     bind (lift (build_file_name w line_config dubbed_file_name)) (\<lambda>output_file_name.
     bind (lift (getitem line_config ''output_bucket'')) (\<lambda>bucket.
     upload_file_to_gcs w bucket dubbed_file_name output_file_name)))"

text \<open>
  The local variables of \<^verbatim>\<open>_process_line\<close> that outlive an iteration: the (mutated)
  \<^verbatim>\<open>line_config\<close>, \<^verbatim>\<open>dubber\<close> (\<open>None\<close> until a constructor has returned) and
  \<^verbatim>\<open>output_files_paths\<close>.
\<close>

record locals =
  l_line_config :: pydict
  l_dubber :: "dubber option"
  l_paths :: "string list"

text \<open>The body of \<^verbatim>\<open>for language in target_languages\<close>. The result is the exception that
  ended the iteration, if any; the variables are returned either way, since the
  \<^verbatim>\<open>finally\<close> block reads \<^verbatim>\<open>dubber\<close> as the exception left it.\<close>

definition dub_language ::
  "world \<Rightarrow> pydict \<Rightarrow> string \<Rightarrow> pyval \<Rightarrow> pyval \<Rightarrow> locals \<Rightarrow> event list
     \<Rightarrow> (exn option \<times> locals) \<times> event list" where
  "dub_language w tool_config output_dir voices language st tr =
     (let line_config = setitem (l_line_config st) ''target_language'' language;
          st1 = st\<lparr>l_line_config := line_config\<rparr>
      in case getitem line_config ''script'' of
           Inl e \<Rightarrow> ((Some e, st1), tr)
         | Inr script \<Rightarrow>
             if truthy script then
               (case configure_dubber w tool_config line_config output_dir tr of
                  (Inl e, tr1) \<Rightarrow> ((Some e, st1), tr1)
                | (Inr d, tr1) \<Rightarrow>
                    (case bind (dub_ad_from_script w d line_config voices) (\<lambda>_.
                               upload_dubbed_file w d line_config) tr1 of
                       (Inl e, tr2) \<Rightarrow> ((Some e, st1\<lparr>l_dubber := Some d\<rparr>), tr2)
                     | (Inr path, tr2) \<Rightarrow>
                         ((None, st1\<lparr>l_dubber := Some d, l_paths := l_paths st @ [path]\<rparr>), tr2)))
             else
               (case configure_dubber w tool_config line_config output_dir tr of
                  (Inl e, tr1) \<Rightarrow> ((Some e, st1), tr1)
                | (Inr d, tr1) \<Rightarrow>
                    (case bind (perform w (DubAd d)) (\<lambda>_.
                               upload_dubbed_file w d line_config) tr1 of
                       (Inl e, tr2) \<Rightarrow> ((Some e, st1\<lparr>l_dubber := Some d\<rparr>), tr2)
                     | (Inr path, tr2) \<Rightarrow>
                         ((None, st1\<lparr>l_dubber := Some d, l_paths := l_paths st @ [path]\<rparr>), tr2))))"

fun dub_languages ::
  "world \<Rightarrow> pydict \<Rightarrow> string \<Rightarrow> pyval \<Rightarrow> pyval list \<Rightarrow> locals \<Rightarrow> event list
     \<Rightarrow> (exn option \<times> locals) \<times> event list" where
  "dub_languages w tool_config output_dir voices [] st tr = ((None, st), tr)"
| "dub_languages w tool_config output_dir voices (language # rest) st tr =
     (case dub_language w tool_config output_dir voices language st tr of
        ((Some e, st'), tr') \<Rightarrow> ((Some e, st'), tr')
      | ((None, st'), tr') \<Rightarrow> dub_languages w tool_config output_dir voices rest st' tr')"

text \<open>What the \<^verbatim>\<open>for\<close> statement iterates over: the field is read, evaluated as a literal
  and iterated.\<close>

definition target_languages :: "world \<Rightarrow> pydict \<Rightarrow> exn + pyval list" where
  "target_languages w line_config =
     (case getitem line_config ''target_language'' of
        Inl e \<Rightarrow> Inl e
      | Inr v \<Rightarrow> (case literal_eval w v of Inl e \<Rightarrow> Inl e | Inr parsed \<Rightarrow> py_iter parsed))"

text \<open>The \<^verbatim>\<open>try\<close> block of \<^verbatim>\<open>_process_line\<close>.\<close>

definition process_line_try ::
  "world \<Rightarrow> pydict \<Rightarrow> pydict \<Rightarrow> string \<Rightarrow> event list \<Rightarrow> (exn option \<times> locals) \<times> event list" where
  "process_line_try w tool_config line_config output_dir tr =
     (let st0 = \<lparr>l_line_config = line_config, l_dubber = None, l_paths = []\<rparr>
      in case getitem line_config ''script'' of
           Inl e \<Rightarrow> ((Some e, st0), tr)
         | Inr v_script \<Rightarrow>
        (case literal_eval w v_script of
           Inl e \<Rightarrow> ((Some e, st0), tr)
         | Inr script \<Rightarrow>
        (let line_config1 = setitem line_config ''script'' script;
             st1 = st0\<lparr>l_line_config := line_config1\<rparr>
         in case getitem line_config1 ''voices'' of
              Inl e \<Rightarrow> ((Some e, st1), tr)
            | Inr v_voices \<Rightarrow>
           (case json_loads w v_voices of
              Inl e \<Rightarrow> ((Some e, st1), tr)
            | Inr voices \<Rightarrow>
           (case target_languages w line_config1 of
              Inl e \<Rightarrow> ((Some e, st1), tr)
            | Inr languages \<Rightarrow>
                dub_languages w tool_config output_dir voices languages st1 tr)))))"

text \<open>The \<^verbatim>\<open>finally\<close> block: \<^verbatim>\<open>dubber.clean_up()\<close> inside its own \<^verbatim>\<open>try\<close>. With
  \<^verbatim>\<open>dubber\<close> still \<^verbatim>\<open>None\<close> the attribute lookup raises and no call is made; whatever is
  raised is dropped.\<close>

definition process_line_finally :: "world \<Rightarrow> dubber option \<Rightarrow> event list \<Rightarrow> event list" where
  "process_line_finally w d tr =
     (case d of None \<Rightarrow> tr | Some h \<Rightarrow> snd (perform w (CleanUp h) tr))"

text \<open>\<^verbatim>\<open>_process_line\<close>. The result is the returned pair, or the exception raised by the
  logging calls of the handler (it leaves the function after the \<^verbatim>\<open>finally\<close> block);
  the caller's \<^verbatim>\<open>line_config\<close> is the same dictionary, so it is returned as mutated.\<close>

definition process_line ::
  "world \<Rightarrow> pydict \<Rightarrow> pydict \<Rightarrow> pyval \<Rightarrow> string \<Rightarrow> event list
     \<Rightarrow> ((exn + string \<times> string) \<times> pydict) \<times> event list" where
  "process_line w tool_config line_config worksheet_url output_dir tr =
     (case process_line_try w tool_config line_config output_dir tr of
        ((None, st), tr1) \<Rightarrow>
          ((Inr (STATUS_SUCCESS, join '','' (l_paths st)), l_line_config st),
           process_line_finally w (l_dubber st) tr1)
      | ((Some e, st), tr1) \<Rightarrow>
          (let p = failure_payload FAILED_STATUS_FOR_REPORTING_DUBBER worksheet_url e
           in case bind (perform w (Log e)) (\<lambda>_.
                   perform w (LogFailure FAILED_STATUS_FOR_REPORTING_DUBBER p)) tr1 of
                (Inl e', tr2) \<Rightarrow>
                  ((Inl e', l_line_config st), process_line_finally w (l_dubber st) tr2)
              | (Inr _, tr2) \<Rightarrow>
                  ((Inr (STATUS_FAILED, lp_message p), l_line_config st),
                   process_line_finally w (l_dubber st) tr2)))"

subsection \<open>The entry point of the worker\<close>

datatype outcome = Returned string int | Exited int | Raised exn

text \<open>Reading a local variable that no statement has bound yet (the wording is that of
  the interpreter and is never read by the program).\<close>

definition unbound_local :: "string \<Rightarrow> exn" where
  "unbound_local v =
     ''cannot access local variable '' @ [CHR 0x27] @ v @ [CHR 0x27]
       @ '' where it is not associated with a value''"

definition required_elem :: "string list" where
  "required_elem = [''PROJECT_ID'', ''REGION'', ''SERVICE_ACCOUNT'', ''DEPLOYMENT_NAME'', ''OUTPUT_DIRECTORY'']"

text \<open>The local variables of \<^verbatim>\<open>run\<close> that its \<^verbatim>\<open>except\<close> block reads; \<open>None\<close> is a
  variable not bound when the exception was raised.\<close>

record run_locals =
  r_worksheet_url :: "pyval option"
  r_tool_config :: "pydict option"
  r_line_config :: "pydict option"
  r_status_columns :: "(string \<times> string) list option"
  r_status :: "string option"

text \<open>The row argument \<^verbatim>\<open>int(line_config["row_num"]) + 2\<close>.\<close>

definition sheet_row :: "world \<Rightarrow> pydict \<Rightarrow> exn + int" where
  "sheet_row w line_config =
     (case getitem line_config ''row_num'' of
        Inl e \<Rightarrow> Inl e
      | Inr v \<Rightarrow> (case py_int w v of Inl e \<Rightarrow> Inl e | Inr n \<Rightarrow> Inr (n + 2)))"

text \<open>The \<^verbatim>\<open>try\<close> block of \<^verbatim>\<open>run\<close>, with the variables as the block leaves them.\<close>

definition run_try ::
  "world \<Rightarrow> request \<Rightarrow> string \<Rightarrow> event list \<Rightarrow> (exn option \<times> run_locals) \<times> event list" where
  "run_try w request_json output_dir tr =
     (let v0 = \<lparr>r_worksheet_url = None, r_tool_config = None, r_line_config = None,
                r_status_columns = None, r_status = None\<rparr>
      in case rq_worksheet_url request_json of
           None \<Rightarrow> ((Some (key_error ''worksheet_url''), v0), tr)
         | Some worksheet_url \<Rightarrow>
        (let v1 = v0\<lparr>r_worksheet_url := Some worksheet_url\<rparr>
         in case rq_tool_config request_json of
              None \<Rightarrow> ((Some (key_error ''tool_config''), v1), tr)
            | Some tool_config \<Rightarrow>
        (let v2 = v1\<lparr>r_tool_config := Some tool_config\<rparr>
         in case rq_line_config request_json of
              None \<Rightarrow> ((Some (key_error ''line_config''), v2), tr)
            | Some line_config \<Rightarrow>
        (let v3 = v2\<lparr>r_line_config := Some line_config\<rparr>
         in case rq_status_columns request_json of
              None \<Rightarrow> ((Some (key_error ''status_columns''), v3), tr)
            | Some status_columns \<Rightarrow>
        (let v4 = v3\<lparr>r_status_columns := Some status_columns\<rparr>
         in case perform w InitSheetClient tr of
              (Inl e, tr1) \<Rightarrow> ((Some e, v4), tr1)
            | (Inr _, tr1) \<Rightarrow>
        (case process_line w tool_config line_config worksheet_url output_dir tr1 of
           ((Inl e, line_config'), tr2) \<Rightarrow> ((Some e, v4\<lparr>r_line_config := Some line_config'\<rparr>), tr2)
         | ((Inr (status, message), line_config'), tr2) \<Rightarrow>
        (let v5 = v4\<lparr>r_line_config := Some line_config', r_status := Some status\<rparr>
         in case bind (lift (getitem tool_config ''DUBBING_CONFIG'')) (\<lambda>worksheet_name.
                 bind (lift (sheet_row w line_config')) (\<lambda>row.
                 update_google_sheet w worksheet_url worksheet_name row status_columns
                   status message)) tr2 of
              (Inl e, tr3) \<Rightarrow> ((Some e, v5), tr3)
            | (Inr _, tr3) \<Rightarrow> ((None, v5), tr3))))))))"

text \<open>The \<^verbatim>\<open>except\<close> block of \<^verbatim>\<open>run\<close>: the arguments of the second
  \<^verbatim>\<open>_update_google_sheet\<close> call are evaluated from left to right, and the first variable
  that is not bound ends the block. (\<^verbatim>\<open>sheets_client\<close> is bound whenever \<^verbatim>\<open>status\<close> is.)\<close>

definition run_except :: "world \<Rightarrow> exn \<Rightarrow> run_locals \<Rightarrow> event list \<Rightarrow> outcome \<times> event list" where
  "run_except w e v tr =
     (case r_worksheet_url v of
        None \<Rightarrow> (Raised (unbound_local ''worksheet_url''), tr)
      | Some worksheet_url \<Rightarrow>
     (case r_tool_config v of
        None \<Rightarrow> (Raised (unbound_local ''tool_config''), tr)
      | Some tool_config \<Rightarrow>
     (case getitem tool_config ''DUBBING_CONFIG'' of
        Inl e' \<Rightarrow> (Raised e', tr)
      | Inr worksheet_name \<Rightarrow>
     (case r_line_config v of
        None \<Rightarrow> (Raised (unbound_local ''line_config''), tr)
      | Some line_config \<Rightarrow>
     (case sheet_row w line_config of
        Inl e' \<Rightarrow> (Raised e', tr)
      | Inr row \<Rightarrow>
     (case r_status_columns v of
        None \<Rightarrow> (Raised (unbound_local ''status_columns''), tr)
      | Some status_columns \<Rightarrow>
     (case r_status v of
        None \<Rightarrow> (Raised (unbound_local ''status''), tr)
      | Some status \<Rightarrow>
     (case update_google_sheet w worksheet_url worksheet_name row status_columns status e tr of
        (Inl e', tr1) \<Rightarrow> (Raised e', tr1)
      | (Inr _, tr1) \<Rightarrow> (Returned ''Error'' 500, tr1)))))))))"

text \<open>\<^verbatim>\<open>run\<close> of the worker. \<open>environ\<close> is \<^verbatim>\<open>os.environ\<close>, \<open>data\<close> the base64 text
  \<^verbatim>\<open>cloud_event.data["message"]["data"]\<close>. Decoding happens before the \<^verbatim>\<open>try\<close> block.\<close>

definition run :: "world \<Rightarrow> (string \<rightharpoonup> string) \<Rightarrow> string \<Rightarrow> event list \<Rightarrow> outcome \<times> event list" where
  "run w environ data tr =
     (case perform w NewLoggingClient tr of
        (Inl e, tr1) \<Rightarrow> (Raised e, tr1)
      | (Inr _, tr1) \<Rightarrow>
     if \<not> list_all (\<lambda>elem. environ elem \<noteq> None) required_elem then
       (case perform w (LogText
               (FAILED_STATUS_FOR_REPORTING_DUBBER
                  @ '': Cannot proceed, there are missing input values please make sure you set all the environment variables correctly.'')) tr1 of
          (Inl e, tr2) \<Rightarrow> (Raised e, tr2)
        | (Inr _, tr2) \<Rightarrow> (Exited 1, tr2))
     else
     (case environ ''OUTPUT_DIRECTORY'' of
        None \<Rightarrow> (Raised (key_error ''OUTPUT_DIRECTORY''), tr1)
      | Some output_dir \<Rightarrow>
     (case decode_request w data of
        Inl e \<Rightarrow> (Raised e, tr1)
      | Inr request_json \<Rightarrow>
     (case run_try w request_json output_dir tr1 of
        ((None, v), tr2) \<Rightarrow> (Returned ''OK'' 200, tr2)
      | ((Some e, v), tr2) \<Rightarrow> run_except w e v tr2))))"

section \<open>Reading a history\<close>

text \<open>What a step adds to the history.\<close>

definition new_events :: "(event list \<Rightarrow> 'r \<times> event list) \<Rightarrow> event list \<Rightarrow> event list" where
  "new_events m tr = drop (length tr) (snd (m tr))"

text \<open>The payloads handed to the publisher (each with the outcome of the call), the cell
  updates sent to the sheet (range and cells), and the engines whose \<^verbatim>\<open>clean_up()\<close> was
  called, in the order of the calls.\<close>

fun publish_attempts :: "event list \<Rightarrow> (payload \<times> exn option) list" where
  "publish_attempts [] = []"
| "publish_attempts ((Publish p t pl, r) # tr) = (pl, r) # publish_attempts tr"
| "publish_attempts (ev # tr) = publish_attempts tr"

fun updates :: "event list \<Rightarrow> (string \<times> string list) list" where
  "updates [] = []"
| "updates ((Update rng cells, r) # tr) = (rng, cells) # updates tr"
| "updates (ev # tr) = updates tr"

fun clean_ups :: "event list \<Rightarrow> dubber list" where
  "clean_ups [] = []"
| "clean_ups ((CleanUp d, r) # tr) = d # clean_ups tr"
| "clean_ups (ev # tr) = clean_ups tr"

fun is_publish :: "call \<Rightarrow> bool" where
  "is_publish (Publish p t pl) = True"
| "is_publish c = False"

fun is_log :: "call \<Rightarrow> bool" where
  "is_log (Log s) = True"
| "is_log (LogText s) = True"
| "is_log (LogFailure tag p) = True"
| "is_log NewLoggingClient = True"
| "is_log c = False"

fun is_sheet :: "call \<Rightarrow> bool" where
  "is_sheet InitSheetClient = True"
| "is_sheet (OpenByUrl url) = True"
| "is_sheet (Worksheet n) = True"
| "is_sheet (Update rng cells) = True"
| "is_sheet c = False"

text \<open>Calls of the engine, the object store and the file system: what a dub is made of.\<close>

fun is_dubbing :: "call \<Rightarrow> bool" where
  "is_dubbing (Makedirs d) = True"
| "is_dubbing (Download b s d) = True"
| "is_dubbing (NewDubber d) = True"
| "is_dubbing (DubAdFromScriptElevenlabs d s t v) = True"
| "is_dubbing (DubAdFromScriptGoogle d s t v) = True"
| "is_dubbing (DubAd d) = True"
| "is_dubbing (Upload b s d) = True"
| "is_dubbing c = False"

text \<open>No call of the given kind ever raises in this world.\<close>

definition never_raises :: "world \<Rightarrow> (call \<Rightarrow> bool) \<Rightarrow> bool" where
  "never_raises w P \<longleftrightarrow> (\<forall>h c. P c \<longrightarrow> respond w h c = None)"

text \<open>The payload \<^verbatim>\<open>_process_lines\<close> builds for the row at position \<open>row_num\<close>.\<close>

definition row_payload :: "pyval \<Rightarrow> pydict \<Rightarrow> nat \<times> pydict \<Rightarrow> payload" where
  "row_payload worksheet_url tool_config rl =
     \<lparr>pl_worksheet_url = worksheet_url,
      pl_line_config = setitem (snd rl) ''row_num'' (PInt (int (fst rl))),
      pl_tool_config = tool_config,
      pl_status_columns = STATUS_COLUMNS\<rparr>"

text \<open>The engines whose constructor returned and the uploads that went through, in order:
  \<open>Inl d\<close> for an engine, \<open>Inr path\<close> for the path \<^verbatim>\<open>_upload_file_to_gcs\<close> returns.\<close>

fun dub_steps :: "world \<Rightarrow> event list \<Rightarrow> (dubber + string) list" where
  "dub_steps w [] = []"
| "dub_steps w ((NewDubber d, None) # tr) = Inl d # dub_steps w tr"
| "dub_steps w ((Upload b s dst, None) # tr) =
     Inr (''gs://'' @ format_value w b @ ''/'' @ dst) # dub_steps w tr"
| "dub_steps w (ev # tr) = dub_steps w tr"

fun engines :: "(dubber + string) list \<Rightarrow> dubber list" where
  "engines [] = []"
| "engines (Inl d # ss) = d # engines ss"
| "engines (Inr p # ss) = engines ss"

text \<open>The same world, except that \<^verbatim>\<open>clean_up()\<close> answers as \<open>f\<close> says.\<close>

definition with_clean_up :: "world \<Rightarrow> (event list \<Rightarrow> dubber \<Rightarrow> exn option) \<Rightarrow> world" where
  "with_clean_up w f =
     w\<lparr>respond := (\<lambda>h c. case c of CleanUp d \<Rightarrow> f h d | _ \<Rightarrow> respond w h c)\<rparr>"

text \<open>The same steps with each engine replaced by the language it was built for.\<close>

definition language_steps :: "world \<Rightarrow> event list \<Rightarrow> (pyval + string) list" where
  "language_steps w tr = map (map_sum target_language id) (dub_steps w tr)"

text \<open>A step that only calls the engine, the object store or the file system, and during
  which no constructor returns and no upload goes through.\<close>

definition silent :: "world \<Rightarrow> 'a step \<Rightarrow> bool" where
  "silent w m \<longleftrightarrow>
     (\<forall>tr r tr'. m tr = (r, tr') \<longrightarrow>
        (\<exists>evs. tr' = tr @ evs \<and> (\<forall>ev\<in>set evs. is_dubbing (fst ev)) \<and> dub_steps w evs = []))"

section \<open>A sample sheet and sample worlds\<close>

text \<open>
  The inputs used to run the definitions: a tool configuration, one row of the job sheet
  (with a column the template does not know and an empty cell), and worlds that differ
  only in which calls raise. The library functions answer on the values these inputs
  contain as Python does.
\<close>

definition sample_tool_config :: pydict where
  "sample_tool_config =
     [(''AI_STUDIO_API_KEY'', PStr ''k1''), (''DUBBING_CONFIG'', PStr ''Jobs''),
      (''HUGGING_FACE_ACCESS_TOKEN'', PStr ''k2''), (''ELEVEN_LABS_API_KEY'', PStr ''k3'')]"

definition sample_row :: "string \<rightharpoonup> string" where
  "sample_row =
     map_of [(''video_url'', ''bkt/in.mp4''), (''target_language'', ''['fr', 'de']''),
             (''output_bucket'', ''out''), (''output_naming_convention'', ''{target_language}''),
             (''status'', []), (''notes'', ''first batch'')]"

text \<open>The row as \<^verbatim>\<open>_read_dubbing_config_from_google_sheet\<close> hands it to the splitter, and
  as the worker receives it (with \<^verbatim>\<open>row_num\<close>).\<close>

definition sample_config_line :: pydict where
  "sample_config_line =
     map (\<lambda>kv. (fst kv, PStr (snd kv))) (merged_line DEFAULT_DUBBING_CONFIG sample_row)"

definition sample_line :: pydict where
  "sample_line = setitem sample_config_line ''row_num'' (PInt 0)"

definition sample_literal_eval :: "pyval \<Rightarrow> exn + pyval" where
  "sample_literal_eval v =
     (case map_of
        [(PStr ''[]'', Inr (PList [])),
         (PStr ''['fr', 'de']'', Inr (PList [PStr ''fr'', PStr ''de''])),
         (PStr ''[0]'', Inr (PList [PInt 0])),
         (PStr ''[1]'', Inr (PList [PInt 1])),
         (PStr ''{}'', Inr (PDict [])),
         (PStr ''['',
          Inl ([CHR 0x27] @ ''['' @ [CHR 0x27] @ '' was never closed (<unknown>, line 1)''))] v of
        Some r \<Rightarrow> r
      | None \<Rightarrow> Inl ''malformed node or string'')"

definition sample_json_loads :: "pyval \<Rightarrow> exn + pyval" where
  "sample_json_loads v =
     (case map_of [(PStr ''[]'', PList []), (PStr ''{}'', PDict [])] v of
        Some r \<Rightarrow> Inr r
      | None \<Rightarrow> Inl ''Expecting value: line 1 column 1 (char 0)'')"

definition sample_int :: "pyval \<Rightarrow> exn + int" where
  "sample_int v =
     (case v of
        PInt i \<Rightarrow> Inr i
      | _ \<Rightarrow> (case map_of [(PStr ''1'', 1), (PStr ''64'', 64), (PStr ''8192'', 8192)] v of
                Some i \<Rightarrow> Inr i
              | None \<Rightarrow> Inl ''invalid literal for int() with base 10''))"

definition sample_float :: "pyval \<Rightarrow> exn + real" where
  "sample_float v =
     (case map_of [(PStr ''0.001'', 1 / 1000), (PStr ''5.0'', 5), (PStr ''0.0'', 0),
                   (PStr ''1.0'', 1), (PStr ''0.95'', 95 / 100)] v of
        Some r \<Rightarrow> Inr r
      | None \<Rightarrow> Inl ''could not convert string to float'')"

text \<open>Subscripting a dictionary: a missing integer key raises \<^verbatim>\<open>KeyError\<close> with the number as
  its text.\<close>

definition sample_getitem :: "pyval \<Rightarrow> pyval \<Rightarrow> exn + pyval" where
  "sample_getitem v k =
     (case (v, k) of
        (PDict d, PStr s) \<Rightarrow> getitem d s
      | (PDict d, PInt i) \<Rightarrow> Inl (str_int i)
      | _ \<Rightarrow> Inl ''list indices must be integers or slices, not str'')"

definition sample_format :: "string \<Rightarrow> pydict \<Rightarrow> exn + string" where
  "sample_format s d =
     (if s = ''{target_language}''
      then (case map_of d ''target_language'' of
              Some (PStr l) \<Rightarrow> Inr l
            | _ \<Rightarrow> Inl ''unsupported'')
      else if CHR ''{'' \<in> set s \<or> CHR ''}'' \<in> set s then Inl ''unsupported''
      else Inr s)"

text \<open>Two messages: the JSON object \<^verbatim>\<open>{"worksheet_url": "https://sheet"}\<close>, and a whole
  job whose \<^verbatim>\<open>line_config\<close> is
  \<^verbatim>\<open>{"script": "[]", "voices": "[]", "target_language": "[]", "row_num": 0}\<close>, both in
  base64. Any other text is taken to be cut short.\<close>

definition sample_message_url_only :: string where
  "sample_message_url_only = ''eyJ3b3Jrc2hlZXRfdXJsIjogImh0dHBzOi8vc2hlZXQifQ==''"

definition sample_message :: string where
  "sample_message =
     ''eyJ3b3Jrc2hlZXRfdXJsIjogImh0dHBzOi8vc2hlZXQiLCAibGluZV9jb25maWciOiB7InNjcmlwdCI6ICJbXSIsICJ2b2ljZXMiOiAiW10iLCAidGFyZ2V0X2xhbmd1YWdlIjogIltdIiwgInJvd19udW0iOiAwfSwgInRvb2xfY29uZmlnIjogeyJEVUJCSU5HX0NPTkZJRyI6ICJKb2JzIn0sICJzdGF0dXNfY29sdW1ucyI6IHsiU1RBVFVTX0NPTFVNTiI6ICJQIiwgIlVQREFURURfQVRfQ09MVU1OIjogIlEiLCAiTUVTU0FHRV9DT0xVTU4iOiAiUiJ9fQ==''"

definition sample_request :: request where
  "sample_request =
     \<lparr>rq_worksheet_url = Some (PStr ''https://sheet''),
      rq_tool_config = Some [(''DUBBING_CONFIG'', PStr ''Jobs'')],
      rq_line_config = Some [(''script'', PStr ''[]''), (''voices'', PStr ''[]''),
                             (''target_language'', PStr ''[]''), (''row_num'', PInt 0)],
      rq_status_columns = Some STATUS_COLUMNS\<rparr>"

definition sample_decode :: "string \<Rightarrow> exn + request" where
  "sample_decode s =
     (if s = sample_message then Inr sample_request
      else if s = sample_message_url_only
      then Inr \<lparr>rq_worksheet_url = Some (PStr ''https://sheet''), rq_tool_config = None,
                rq_line_config = None, rq_status_columns = None\<rparr>
      else Inl ''Incorrect padding'')"

definition sample_environ :: "string \<rightharpoonup> string" where
  "sample_environ =
     map_of [(''PROJECT_ID'', ''proj''), (''REGION'', ''europe-west1''),
             (''SERVICE_ACCOUNT'', ''sa@proj.iam.gserviceaccount.com''),
             (''DEPLOYMENT_NAME'', ''ariel''), (''OUTPUT_DIRECTORY'', ''/tmp/ariel'')]"

text \<open>The sample world, given the answers to the external calls.\<close>

definition sample_world :: "(event list \<Rightarrow> call \<Rightarrow> exn option) \<Rightarrow> world" where
  "sample_world r =
     \<lparr>respond = r,
      now = (\<lambda>h. ''2025-01-01 12:00:00''),
      gfile_exists = (\<lambda>h d. Inr True),
      dubber_use_elevenlabs = (\<lambda>h d. Inr (use_elevenlabs d)),
      video_file = (\<lambda>h d. Inr ''/tmp/ariel/dubbed_video.mp4''),
      literal_eval = sample_literal_eval,
      json_loads = sample_json_loads,
      py_int = sample_int,
      py_float = sample_float,
      py_getitem = sample_getitem,
      py_repr = type_name,
      str_format = sample_format,
      decode_request = sample_decode\<rparr>"

text \<open>Every call returns.\<close>

definition calm :: "event list \<Rightarrow> call \<Rightarrow> exn option" where
  "calm h c = None"

text \<open>The sheet refuses every write (the write quota is used up).\<close>

definition sheet_quota_exceeded :: "event list \<Rightarrow> call \<Rightarrow> exn option" where
  "sheet_quota_exceeded h c =
     (case c of Update rng cells \<Rightarrow> Some ''APIError: [429]: Quota exceeded'' | _ \<Rightarrow> None)"

text \<open>Publishing times out.\<close>

definition publish_times_out :: "event list \<Rightarrow> call \<Rightarrow> exn option" where
  "publish_times_out h c =
     (case c of Publish p t pl \<Rightarrow> Some ''504 Deadline Exceeded'' | _ \<Rightarrow> None)"

text \<open>Publishing times out and the sheet refuses every write.\<close>

definition outage :: "event list \<Rightarrow> call \<Rightarrow> exn option" where
  "outage h c =
     (case c of
        Publish p t pl \<Rightarrow> Some ''504 Deadline Exceeded''
      | Update rng cells \<Rightarrow> Some ''APIError: [429]: Quota exceeded''
      | _ \<Rightarrow> None)"

text \<open>The source video is not in the bucket.\<close>

definition video_missing :: "event list \<Rightarrow> call \<Rightarrow> exn option" where
  "video_missing h c =
     (case c of Download b s d \<Rightarrow> Some ''404 No such object: bkt/in.mp4'' | _ \<Rightarrow> None)"


text \<open>A row with nothing to dub, and the same row with a script cell that is cut short.\<close>

definition sample_idle_line :: pydict where
  "sample_idle_line =
     [(''script'', PStr ''[]''), (''voices'', PStr ''[]''), (''target_language'', PStr ''[]''),
      (''row_num'', PInt 0)]"


section \<open>Supporting lemmas\<close>

subsection \<open>Facts about histories\<close>

lemma publish_attempts_append: "publish_attempts (a @ b) = publish_attempts a @ publish_attempts b"
  by (induction a rule: publish_attempts.induct) auto

lemma updates_append: "updates (a @ b) = updates a @ updates b"
  by (induction a rule: updates.induct) auto

lemma clean_ups_append: "clean_ups (a @ b) = clean_ups a @ clean_ups b"
  by (induction a rule: clean_ups.induct) auto

lemma dub_steps_append: "dub_steps w (a @ b) = dub_steps w a @ dub_steps w b"
  by (induction w a rule: dub_steps.induct) auto

lemma engines_append: "engines (a @ b) = engines a @ engines b"
  by (induction a rule: engines.induct) auto

lemma dubbing_no_update: "\<forall>ev\<in>set evs. is_dubbing (fst ev) \<Longrightarrow> updates evs = [] \<and> clean_ups evs = [] \<and> publish_attempts evs = []"
proof (induction evs)
  case Nil
  then show ?case by simp
next
  case (Cons ev evs)
  obtain c r where ev: "ev = (c, r)" by (cases ev)
  from Cons.prems have "is_dubbing c" by (simp add: ev)
  then show ?case using Cons by (cases c) (simp_all add: ev)
qed

lemma log_events_silent:
  "\<forall>ev\<in>set evs. is_log (fst ev) \<Longrightarrow> dub_steps w evs = [] \<and> clean_ups evs = [] \<and> updates evs = []"
proof (induction evs)
  case Nil
  then show ?case by simp
next
  case (Cons ev evs)
  obtain c r where ev: "ev = (c, r)" by (cases ev)
  from Cons.prems have "is_log c" by (simp add: ev)
  then show ?case using Cons by (cases c) (simp_all add: ev)
qed

lemma new_events_append: "snd (m tr) = tr @ evs \<Longrightarrow> new_events m tr = evs"
  by (simp add: new_events_def)

lemma perform_snd: "snd (perform w c tr) = tr @ [(c, respond w tr c)]"
  by (simp add: perform_def Let_def)

lemma perform_never_raises:
  "never_raises w P \<Longrightarrow> P c \<Longrightarrow> perform w c tr = (Inr (), tr @ [(c, None)])"
  by (simp add: never_raises_def perform_def)

lemma never_raises_weaken:
  "never_raises w P \<Longrightarrow> (\<And>c. Q c \<Longrightarrow> P c) \<Longrightarrow> never_raises w Q"
  by (simp add: never_raises_def)

lemma not_publish_sheet: "never_raises w (\<lambda>c. \<not> is_publish c) \<Longrightarrow> never_raises w is_sheet"
  by (erule never_raises_weaken) (case_tac c, simp_all)

lemma not_publish_log: "never_raises w (\<lambda>c. \<not> is_publish c) \<Longrightarrow> never_raises w is_log"
  by (erule never_raises_weaken) (case_tac c, simp_all)

subsection \<open>Dictionaries and strings\<close>

lemma split_on_not_empty: "split_on c s \<noteq> []"
  by (induction s) (auto split: list.splits)

lemma getitem_setitem_other: "k \<noteq> k' \<Longrightarrow> getitem (setitem d k v) k' = getitem d k'"
  by (simp add: getitem_def setitem_def update_conv')

lemma getitem_setitem_same: "getitem (setitem d k v) k = Inr v"
  by (simp add: getitem_def setitem_def update_conv')

lemma getitem_row_payload:
  "getitem (pl_line_config (row_payload url tc (i, lc))) ''row_num'' = Inr (PInt (int i))"
  "k \<noteq> ''row_num'' \<Longrightarrow> getitem (pl_line_config (row_payload url tc (i, lc))) k = getitem lc k"
  by (simp_all add: row_payload_def getitem_setitem_same getitem_setitem_other)

lemma target_languages_setitem_script:
  "target_languages w (setitem lc ''script'' s) = target_languages w lc"
  by (simp add: target_languages_def getitem_setitem_other)

lemma map_of_merged_line:
  "map_of (merged_line D R) k =
     map_option (\<lambda>d. case R k of None \<Rightarrow> d | Some v \<Rightarrow> if v = [] then d else v) (map_of D k)"
  by (induction D) (auto simp: merged_line_def split: option.splits)

subsection \<open>What one language adds to the history\<close>

lemma dubber_arguments_target:
  "dubber_arguments w tc lc od path = Inr d \<Longrightarrow> getitem lc ''target_language'' = Inr (target_language d)"
  by (auto simp: dubber_arguments_def sbind_def split: sum.splits)

lemma configure_dubber_events:
  assumes "configure_dubber w tc lc od tr = (r, tr')"
  shows "\<exists>evs. tr' = tr @ evs \<and> (\<forall>ev\<in>set evs. is_dubbing (fst ev))
            \<and> dub_steps w evs = (case r of Inl e \<Rightarrow> [] | Inr d \<Rightarrow> [Inl d])"
  using assms
  by (auto simp: configure_dubber_def bind_def lift_def perform_def download_file_from_gcs_def Let_def
      split: sum.splits if_splits option.splits prod.splits)

lemma silentD:
  "silent w m \<Longrightarrow> m tr = (r, tr') \<Longrightarrow>
     \<exists>evs. tr' = tr @ evs \<and> (\<forall>ev\<in>set evs. is_dubbing (fst ev)) \<and> dub_steps w evs = []"
  unfolding silent_def by blast

lemma dub_ad_from_script_silent: "silent w (dub_ad_from_script w d lc voices)"
  unfolding silent_def
  by (auto simp: dub_ad_from_script_def bind_def lift_def perform_def Let_def
      split: sum.splits if_splits option.splits prod.splits)

lemma upload_dubbed_file_events:
  assumes "upload_dubbed_file w d lc tr = (r, tr')"
  shows "\<exists>evs. tr' = tr @ evs \<and> (\<forall>ev\<in>set evs. is_dubbing (fst ev))
            \<and> dub_steps w evs = (case r of Inl e \<Rightarrow> [] | Inr p \<Rightarrow> [Inr p])"
  using assms
  by (auto simp: upload_dubbed_file_def upload_file_to_gcs_def bind_def lift_def perform_def Let_def
      split: sum.splits if_splits option.splits prod.splits)

lemma perform_DubAd_silent: "silent w (perform w (DubAd d))"
  unfolding silent_def by (auto simp: perform_def Let_def split: option.splits)

lemma dub_then_upload_events:
  assumes m: "silent w m"
    and run: "bind m (\<lambda>_. upload_dubbed_file w d lc) tr = (r, tr')"
  shows "\<exists>evs. tr' = tr @ evs \<and> (\<forall>ev\<in>set evs. is_dubbing (fst ev))
            \<and> dub_steps w evs = (case r of Inl e \<Rightarrow> [] | Inr p \<Rightarrow> [Inr p])"
proof (cases "m tr")
  case (Pair r1 tr1)
  from silentD[OF m Pair] obtain evs1 where e1: "tr1 = tr @ evs1" "\<forall>ev\<in>set evs1. is_dubbing (fst ev)"
    "dub_steps w evs1 = []" by blast
  show ?thesis
  proof (cases r1)
    case (Inl e)
    with Pair run e1 show ?thesis by (auto simp: bind_def)
  next
    case (Inr u)
    with Pair run have "upload_dubbed_file w d lc tr1 = (r, tr')" by (simp add: bind_def)
    from upload_dubbed_file_events[OF this] obtain evs2 where e2: "tr' = tr1 @ evs2"
      "\<forall>ev\<in>set evs2. is_dubbing (fst ev)"
      "dub_steps w evs2 = (case r of Inl e \<Rightarrow> [] | Inr p \<Rightarrow> [Inr p])" by blast
    have "tr' = tr @ (evs1 @ evs2)" using e1 e2 by simp
    moreover have "\<forall>ev\<in>set (evs1 @ evs2). is_dubbing (fst ev)" using e1 e2 by auto
    moreover have "dub_steps w (evs1 @ evs2) = (case r of Inl e \<Rightarrow> [] | Inr p \<Rightarrow> [Inr p])"
      using e1 e2 by (simp add: dub_steps_append)
    ultimately show ?thesis by blast
  qed
qed

lemma branch_events:
  assumes m: "\<And>d. silent w (m d)"
    and run: "(case configure_dubber w tc lc od tr of
                  (Inl e, tr1) \<Rightarrow> ((Some e, st1), tr1)
                | (Inr d, tr1) \<Rightarrow>
                    (case bind (m d) (\<lambda>_. upload_dubbed_file w d lc) tr1 of
                       (Inl e, tr2) \<Rightarrow> ((Some e, st1\<lparr>l_dubber := Some d\<rparr>), tr2)
                     | (Inr path, tr2) \<Rightarrow>
                         ((None, st1\<lparr>l_dubber := Some d, l_paths := ps @ [path]\<rparr>), tr2))) = ((x, st'), tr')"
    and lang: "getitem lc ''target_language'' = Inr language"
    and ps: "l_paths st1 = ps" and d0: "l_dubber st1 = d0" and lc0: "l_line_config st1 = lc0"
  shows "\<exists>evs. tr' = tr @ evs \<and> (\<forall>ev\<in>set evs. is_dubbing (fst ev))
          \<and> l_dubber st' = (if engines (dub_steps w evs) = [] then d0
                            else Some (last (engines (dub_steps w evs))))
          \<and> l_line_config st' = lc0
          \<and> (case x of
               None \<Rightarrow> (\<exists>d p. dub_steps w evs = [Inl d, Inr p] \<and> target_language d = language
                           \<and> l_paths st' = ps @ [p])
             | Some e \<Rightarrow> l_paths st' = ps)"
proof (cases "configure_dubber w tc lc od tr")
  case (Pair r1 tr1)
  from configure_dubber_events[OF Pair] obtain evs1 where e1: "tr1 = tr @ evs1"
    "\<forall>ev\<in>set evs1. is_dubbing (fst ev)"
    "dub_steps w evs1 = (case r1 of Inl e \<Rightarrow> [] | Inr d \<Rightarrow> [Inl d])" by blast
  show ?thesis
  proof (cases r1)
    case (Inl e)
    with Pair run e1 ps d0 lc0 show ?thesis by auto
  next
    case (Inr d)
    have tl: "target_language d = language"
      using Pair Inr lang
      by (auto simp: configure_dubber_def bind_def lift_def perform_def download_file_from_gcs_def Let_def
          split: sum.splits if_splits option.splits prod.splits dest!: dubber_arguments_target)
    obtain r2 tr2 where P2: "bind (m d) (\<lambda>_. upload_dubbed_file w d lc) tr1 = (r2, tr2)"
      by (cases "bind (m d) (\<lambda>_. upload_dubbed_file w d lc) tr1")
    from dub_then_upload_events[OF m P2]
    obtain evs2 where e2: "tr2 = tr1 @ evs2" "\<forall>ev\<in>set evs2. is_dubbing (fst ev)"
      "dub_steps w evs2 = (case r2 of Inl e \<Rightarrow> [] | Inr p \<Rightarrow> [Inr p])" by blast
    have a: "tr2 = tr @ (evs1 @ evs2)" using e1 e2 by simp
    have b: "\<forall>ev\<in>set (evs1 @ evs2). is_dubbing (fst ev)" using e1 e2 by auto
    have c: "dub_steps w (evs1 @ evs2) = Inl d # (case r2 of Inl e \<Rightarrow> [] | Inr p \<Rightarrow> [Inr p])"
      using e1 e2 Inr by (simp add: dub_steps_append)
    show ?thesis
    proof (cases r2)
      case (Inl e)
      with Pair Inr P2 run have "x = Some e" "st' = st1\<lparr>l_dubber := Some d\<rparr>" "tr' = tr2" by auto
      with a b c Inl ps d0 lc0 show ?thesis
        by (intro exI[of _ "evs1 @ evs2"]) simp
    next
      case (Inr p)
      with Pair \<open>r1 = Inr d\<close> P2 run have "x = None"
        "st' = st1\<lparr>l_dubber := Some d, l_paths := ps @ [p]\<rparr>" "tr' = tr2" by auto
      with a b c Inr tl d0 lc0 show ?thesis
        by (intro exI[of _ "evs1 @ evs2"]) simp
    qed
  qed
qed

lemma dub_language_events:
  assumes run: "dub_language w tc od voices language st tr = ((x, st'), tr')"
  shows "\<exists>evs. tr' = tr @ evs \<and> (\<forall>ev\<in>set evs. is_dubbing (fst ev))
          \<and> l_dubber st' = (if engines (dub_steps w evs) = [] then l_dubber st
                            else Some (last (engines (dub_steps w evs))))
          \<and> l_line_config st' = setitem (l_line_config st) ''target_language'' language
          \<and> (case x of
               None \<Rightarrow> (\<exists>d p. dub_steps w evs = [Inl d, Inr p] \<and> target_language d = language
                           \<and> l_paths st' = l_paths st @ [p])
             | Some e \<Rightarrow> l_paths st' = l_paths st)"
proof -
  let ?lc = "setitem (l_line_config st) ''target_language'' language"
  let ?st1 = "st\<lparr>l_line_config := ?lc\<rparr>"
  have lang: "getitem ?lc ''target_language'' = Inr language" by (rule getitem_setitem_same)
  show ?thesis
  proof (cases "getitem ?lc ''script''")
    case (Inl e)
    with run have "x = Some e" "st' = ?st1" "tr' = tr" by (simp_all add: dub_language_def Let_def)
    then show ?thesis by simp
  next
    case (Inr script)
    show ?thesis
    proof (cases "truthy script")
      case True
      with run Inr have r: "(case configure_dubber w tc ?lc od tr of
                  (Inl e, tr1) \<Rightarrow> ((Some e, ?st1), tr1)
                | (Inr d, tr1) \<Rightarrow>
                    (case bind (\<lambda>tr. dub_ad_from_script w d ?lc voices tr) (\<lambda>_. upload_dubbed_file w d ?lc) tr1 of
                       (Inl e, tr2) \<Rightarrow> ((Some e, ?st1\<lparr>l_dubber := Some d\<rparr>), tr2)
                     | (Inr path, tr2) \<Rightarrow>
                         ((None, ?st1\<lparr>l_dubber := Some d, l_paths := l_paths st @ [path]\<rparr>), tr2))) = ((x, st'), tr')"
        by (simp add: dub_language_def Let_def)
      show ?thesis
        by (rule branch_events[where m = "\<lambda>d. dub_ad_from_script w d ?lc voices",
              OF dub_ad_from_script_silent r lang]) simp_all
    next
      case False
      with run Inr have r: "(case configure_dubber w tc ?lc od tr of
                  (Inl e, tr1) \<Rightarrow> ((Some e, ?st1), tr1)
                | (Inr d, tr1) \<Rightarrow>
                    (case bind (\<lambda>tr. perform w (DubAd d) tr) (\<lambda>_. upload_dubbed_file w d ?lc) tr1 of
                       (Inl e, tr2) \<Rightarrow> ((Some e, ?st1\<lparr>l_dubber := Some d\<rparr>), tr2)
                     | (Inr path, tr2) \<Rightarrow>
                         ((None, ?st1\<lparr>l_dubber := Some d, l_paths := l_paths st @ [path]\<rparr>), tr2))) = ((x, st'), tr')"
        by (simp add: dub_language_def Let_def)
      show ?thesis
        by (rule branch_events[where m = "\<lambda>d. perform w (DubAd d)",
              OF perform_DubAd_silent r lang]) simp_all
    qed
  qed
qed

subsection \<open>What a whole call of the worker adds\<close>

lemma dub_languages_events:
  assumes "dub_languages w tc od voices langs st tr = ((x, st'), tr')"
  shows "\<exists>evs. tr' = tr @ evs \<and> (\<forall>ev\<in>set evs. is_dubbing (fst ev))
          \<and> l_dubber st' = (if engines (dub_steps w evs) = [] then l_dubber st
                            else Some (last (engines (dub_steps w evs))))
          \<and> getitem (l_line_config st') ''row_num'' = getitem (l_line_config st) ''row_num''
          \<and> (x = None \<longrightarrow> (\<exists>ps. length ps = length langs
                  \<and> language_steps w evs = concat (map2 (\<lambda>l p. [Inl l, Inr p]) langs ps)
                  \<and> l_paths st' = l_paths st @ ps))"
  using assms
proof (induction langs arbitrary: st tr)
  case Nil
  then show ?case by (simp add: language_steps_def)
next
  case (Cons language rest)
  obtain x1 st1 tr1 where one: "dub_language w tc od voices language st tr = ((x1, st1), tr1)"
    by (metis surj_pair)
  from dub_language_events[OF one] obtain evs1 where e1: "tr1 = tr @ evs1"
    "\<forall>ev\<in>set evs1. is_dubbing (fst ev)"
    "l_dubber st1 = (if engines (dub_steps w evs1) = [] then l_dubber st
                            else Some (last (engines (dub_steps w evs1))))"
    "l_line_config st1 = setitem (l_line_config st) ''target_language'' language"
    "(case x1 of
               None \<Rightarrow> (\<exists>d p. dub_steps w evs1 = [Inl d, Inr p] \<and> target_language d = language
                           \<and> l_paths st1 = l_paths st @ [p])
             | Some e \<Rightarrow> l_paths st1 = l_paths st)" by blast
  have rn1: "getitem (l_line_config st1) ''row_num'' = getitem (l_line_config st) ''row_num''"
    using e1(4) by (simp add: getitem_setitem_other)
  show ?case
  proof (cases x1)
    case (Some e)
    with one Cons.prems have "x = Some e" "st' = st1" "tr' = tr1" by simp_all
    with e1 rn1 show ?thesis by auto
  next
    case None
    with one Cons.prems have rest: "dub_languages w tc od voices rest st1 tr1 = ((x, st'), tr')"
      by simp
    from Cons.IH[OF rest] obtain evs2 where e2: "tr' = tr1 @ evs2"
      "\<forall>ev\<in>set evs2. is_dubbing (fst ev)"
      "l_dubber st' = (if engines (dub_steps w evs2) = [] then l_dubber st1
                            else Some (last (engines (dub_steps w evs2))))"
      "getitem (l_line_config st') ''row_num'' = getitem (l_line_config st1) ''row_num''"
      "x = None \<longrightarrow> (\<exists>ps. length ps = length rest
                  \<and> language_steps w evs2 = concat (map2 (\<lambda>l p. [Inl l, Inr p]) rest ps)
                  \<and> l_paths st' = l_paths st1 @ ps)" by blast
    from e1(5) None obtain d p where dp: "dub_steps w evs1 = [Inl d, Inr p]"
      "target_language d = language" "l_paths st1 = l_paths st @ [p]" by auto
    have a: "tr' = tr @ (evs1 @ evs2)" using e1 e2 by simp
    have b: "\<forall>ev\<in>set (evs1 @ evs2). is_dubbing (fst ev)" using e1 e2 by auto
    have c: "l_dubber st' = (if engines (dub_steps w (evs1 @ evs2)) = [] then l_dubber st
                            else Some (last (engines (dub_steps w (evs1 @ evs2)))))"
      using e1(3) e2(3) by (simp add: dub_steps_append engines_append)
    have d: "getitem (l_line_config st') ''row_num'' = getitem (l_line_config st) ''row_num''"
      using e2(4) rn1 by simp
    have e: "x = None \<longrightarrow> (\<exists>ps. length ps = length (language # rest)
                  \<and> language_steps w (evs1 @ evs2) = concat (map2 (\<lambda>l p. [Inl l, Inr p]) (language # rest) ps)
                  \<and> l_paths st' = l_paths st @ ps)"
    proof
      assume "x = None"
      with e2(5) obtain ps where ps: "length ps = length rest"
        "language_steps w evs2 = concat (map2 (\<lambda>l p. [Inl l, Inr p]) rest ps)"
        "l_paths st' = l_paths st1 @ ps" by blast
      have "language_steps w (evs1 @ evs2) = concat (map2 (\<lambda>l p. [Inl l, Inr p]) (language # rest) (p # ps))"
        using dp ps by (simp add: language_steps_def dub_steps_append)
      moreover have "l_paths st' = l_paths st @ (p # ps)" using dp ps by simp
      moreover have "length (p # ps) = length (language # rest)" using ps by simp
      ultimately show "\<exists>ps. length ps = length (language # rest)
                  \<and> language_steps w (evs1 @ evs2) = concat (map2 (\<lambda>l p. [Inl l, Inr p]) (language # rest) ps)
                  \<and> l_paths st' = l_paths st @ ps" by blast
    qed
    from a b c d e show ?thesis by blast
  qed
qed

lemma process_line_try_events:
  assumes run: "process_line_try w tc lc od tr = ((x, st'), tr')"
  shows "\<exists>evs. tr' = tr @ evs \<and> (\<forall>ev\<in>set evs. is_dubbing (fst ev))
          \<and> l_dubber st' = (if engines (dub_steps w evs) = [] then None
                            else Some (last (engines (dub_steps w evs))))
          \<and> getitem (l_line_config st') ''row_num'' = getitem lc ''row_num''
          \<and> (x = None \<longrightarrow> (\<exists>langs. target_languages w lc = Inr langs
                  \<and> length (l_paths st') = length langs
                  \<and> language_steps w evs = concat (map2 (\<lambda>l p. [Inl l, Inr p]) langs (l_paths st'))))"
proof -
  let ?st0 = "\<lparr>l_line_config = lc, l_dubber = None, l_paths = []\<rparr>"
  have stop: ?thesis if "tr' = tr" "x \<noteq> None" "l_dubber st' = None"
      "getitem (l_line_config st') ''row_num'' = getitem lc ''row_num''"
    using that by auto
  show ?thesis
  proof (cases "getitem lc ''script''")
    case (Inl e)
    with run show ?thesis by (intro stop) (auto simp: process_line_try_def)
  next
    case s: (Inr v_script)
    show ?thesis
    proof (cases "literal_eval w v_script")
      case (Inl e)
      with run s show ?thesis by (intro stop) (auto simp: process_line_try_def)
    next
      case le: (Inr script)
      let ?lc1 = "setitem lc ''script'' script"
      let ?st1 = "?st0\<lparr>l_line_config := ?lc1\<rparr>"
      have rn: "getitem ?lc1 ''row_num'' = getitem lc ''row_num''"
        by (simp add: getitem_setitem_other)
      show ?thesis
      proof (cases "getitem ?lc1 ''voices''")
        case (Inl e)
        with run s le rn show ?thesis by (intro stop) (auto simp: process_line_try_def Let_def)
      next
        case v: (Inr v_voices)
        show ?thesis
        proof (cases "json_loads w v_voices")
          case (Inl e)
          with run s le v rn show ?thesis by (intro stop) (auto simp: process_line_try_def Let_def)
        next
          case jl: (Inr voices)
          show ?thesis
          proof (cases "target_languages w ?lc1")
            case (Inl e)
            with run s le v jl rn show ?thesis
              by (intro stop) (auto simp: process_line_try_def Let_def)
          next
            case tl: (Inr langs)
            with run s le v jl have loop: "dub_languages w tc od voices langs ?st1 tr = ((x, st'), tr')"
              by (simp add: process_line_try_def Let_def)
            from dub_languages_events[OF loop] obtain evs where e: "tr' = tr @ evs"
              "\<forall>ev\<in>set evs. is_dubbing (fst ev)"
              "l_dubber st' = (if engines (dub_steps w evs) = [] then l_dubber ?st1
                            else Some (last (engines (dub_steps w evs))))"
              "getitem (l_line_config st') ''row_num'' = getitem (l_line_config ?st1) ''row_num''"
              "x = None \<longrightarrow> (\<exists>ps. length ps = length langs
                  \<and> language_steps w evs = concat (map2 (\<lambda>l p. [Inl l, Inr p]) langs ps)
                  \<and> l_paths st' = l_paths ?st1 @ ps)" by blast
            have tl': "target_languages w lc = Inr langs"
              using tl by (simp add: target_languages_setitem_script)
            have "x = None \<longrightarrow> (\<exists>langs. target_languages w lc = Inr langs
                  \<and> length (l_paths st') = length langs
                  \<and> language_steps w evs = concat (map2 (\<lambda>l p. [Inl l, Inr p]) langs (l_paths st')))"
              using e(5) tl' by auto
            with e rn show ?thesis by (intro exI[of _ evs]) simp
          qed
        qed
      qed
    qed
  qed
qed

lemma finally_events:
  "process_line_finally w d tr = tr @ (case d of None \<Rightarrow> [] | Some h \<Rightarrow> [(CleanUp h, respond w tr (CleanUp h))])"
  by (simp add: process_line_finally_def perform_snd split: option.splits)

lemma finally_no_steps:
  "dub_steps w (case d of None \<Rightarrow> [] | Some h \<Rightarrow> [(CleanUp h, r h)]) = []"
  by (simp split: option.splits)

lemma handler_events:
  assumes "bind (perform w (Log e)) (\<lambda>_. perform w (LogFailure tag p)) tr = (r, tr')"
  shows "\<exists>evs. tr' = tr @ evs \<and> (\<forall>ev\<in>set evs. is_log (fst ev))"
  using assms by (auto simp: bind_def perform_def Let_def split: option.splits)

lemma process_line_events:
  assumes run: "process_line w tc lc url od tr = ((r, lc'), tr')"
  shows "\<exists>evs. tr' = tr @ evs
          \<and> clean_ups evs = (if engines (dub_steps w evs) = [] then []
                             else [last (engines (dub_steps w evs))])
          \<and> updates evs = []
          \<and> getitem lc' ''row_num'' = getitem lc ''row_num''"
proof -
  obtain x st tr1 where t: "process_line_try w tc lc od tr = ((x, st), tr1)"
    by (metis surj_pair)
  from process_line_try_events[OF t] obtain evs1 where e1: "tr1 = tr @ evs1"
    "\<forall>ev\<in>set evs1. is_dubbing (fst ev)"
    "l_dubber st = (if engines (dub_steps w evs1) = [] then None
                            else Some (last (engines (dub_steps w evs1))))"
    "getitem (l_line_config st) ''row_num'' = getitem lc ''row_num''" by blast
  from dubbing_no_update[OF e1(2)] have q1: "updates evs1 = []" "clean_ups evs1 = []" by simp_all
  note tr1 = e1(1)
  show ?thesis
  proof (cases x)
    case None
    with run t have "tr' = process_line_finally w (l_dubber st) tr1" "lc' = l_line_config st"
      by (simp_all add: process_line_def)
    then have "tr' = tr @ (evs1 @ (case l_dubber st of None \<Rightarrow> []
                           | Some h \<Rightarrow> [(CleanUp h, respond w (tr @ evs1) (CleanUp h))]))"
      and "lc' = l_line_config st"
      using e1(1) by (simp_all add: finally_events)
    with e1 q1 show ?thesis
      by (intro exI[of _ "evs1 @ (case l_dubber st of None \<Rightarrow> []
                           | Some h \<Rightarrow> [(CleanUp h, respond w (tr @ evs1) (CleanUp h))])"])
        (auto simp: clean_ups_append updates_append dub_steps_append engines_append split: option.splits)
  next
    case (Some e)
    let ?p = "failure_payload FAILED_STATUS_FOR_REPORTING_DUBBER url e"
    obtain r2 tr2 where h: "bind (perform w (Log e)) (\<lambda>_.
                   perform w (LogFailure FAILED_STATUS_FOR_REPORTING_DUBBER ?p)) tr1 = (r2, tr2)"
      by (metis surj_pair)
    from handler_events[OF h] obtain evs2 where e2: "tr2 = tr1 @ evs2"
      "\<forall>ev\<in>set evs2. is_log (fst ev)" by blast
    from log_events_silent[OF e2(2)] have q2: "dub_steps w evs2 = []" "clean_ups evs2 = []"
      "updates evs2 = []" by simp_all
    from run t Some h have "tr' = process_line_finally w (l_dubber st) tr2" "lc' = l_line_config st"
      by (auto simp: process_line_def Let_def split: sum.splits)
    then have "tr' = tr @ (evs1 @ evs2 @ (case l_dubber st of None \<Rightarrow> []
                           | Some h \<Rightarrow> [(CleanUp h, respond w (tr @ evs1 @ evs2) (CleanUp h))]))"
      and "lc' = l_line_config st"
      using e1(1) e2(1) by (simp_all add: finally_events)
    with e1 q1 q2 show ?thesis
      by (intro exI[of _ "evs1 @ evs2 @ (case l_dubber st of None \<Rightarrow> []
                           | Some h \<Rightarrow> [(CleanUp h, respond w (tr @ evs1 @ evs2) (CleanUp h))])"])
        (auto simp: clean_ups_append updates_append dub_steps_append engines_append split: option.splits)
  qed
qed

lemma process_line_outcome:
  "fst (fst (process_line w tc lc url od tr)) =
     (case fst (fst (process_line_try w tc lc od tr)) of
        None \<Rightarrow> Inr (STATUS_SUCCESS, join '','' (l_paths (snd (fst (process_line_try w tc lc od tr)))))
      | Some e \<Rightarrow>
          (case fst (bind (perform w (Log e)) (\<lambda>_. perform w (LogFailure FAILED_STATUS_FOR_REPORTING_DUBBER
                       (failure_payload FAILED_STATUS_FOR_REPORTING_DUBBER url e)))
                     (snd (process_line_try w tc lc od tr))) of
             Inl e' \<Rightarrow> Inl e'
           | Inr u \<Rightarrow> Inr (STATUS_FAILED, lp_message (failure_payload FAILED_STATUS_FOR_REPORTING_DUBBER url e))))"
  by (simp add: process_line_def Let_def split: prod.splits option.splits sum.splits)

lemma handler_never_raises:
  "never_raises w is_log \<Longrightarrow>
     fst (bind (perform w (Log e)) (\<lambda>_. perform w (LogFailure tag p)) tr) = Inr ()"
  by (simp add: bind_def perform_never_raises)

lemma process_line_returns:
  assumes "never_raises w is_log"
  shows "\<exists>status message. fst (fst (process_line w tc lc url od tr)) = Inr (status, message)
            \<and> (status = STATUS_SUCCESS \<or> status = STATUS_FAILED)"
  by (simp add: process_line_outcome handler_never_raises[OF assms] split: option.splits)

lemma update_google_sheet_ok:
  assumes "never_raises w is_sheet" "status_range cols row = Inr rng"
  shows "update_google_sheet w url ws row cols status message tr =
           (Inr (), tr @ [(OpenByUrl url, None), (Worksheet ws, None),
              (Update rng [status, now w tr, message], None)])"
  using assms
  by (simp add: update_google_sheet_def bind_def lift_def Let_def perform_never_raises)

lemma run_well_formed:
  assumes env: "list_all (\<lambda>elem. environ elem \<noteq> None) required_elem"
    and dec: "decode_request w data = Inr \<lparr>rq_worksheet_url = Some url, rq_tool_config = Some tc,
                rq_line_config = Some lc, rq_status_columns = Some cols\<rparr>"
    and logs: "never_raises w is_log" and sheet: "never_raises w is_sheet"
    and ws: "getitem tc ''DUBBING_CONFIG'' = Inr ws"
    and row: "sheet_row w lc = Inr row"
    and rng: "status_range cols row = Inr rng"
  shows "\<exists>status time message.
           fst (run w environ data []) = Returned ''OK'' 200
         \<and> updates (snd (run w environ data [])) = [(rng, [status, time, message])]
         \<and> (status = STATUS_SUCCESS \<or> status = STATUS_FAILED)"
proof -
  from env obtain od where od: "environ ''OUTPUT_DIRECTORY'' = Some od"
    by (auto simp: required_elem_def)
  let ?tr1 = "[(NewLoggingClient, None), (InitSheetClient, None)]"
  obtain r lc' tr2 where pl: "process_line w tc lc url od ?tr1 = ((r, lc'), tr2)"
    by (metis surj_pair)
  from process_line_returns[OF logs, of tc lc url od ?tr1] pl
  obtain status message where r: "r = Inr (status, message)"
    "status = STATUS_SUCCESS \<or> status = STATUS_FAILED" by auto
  from process_line_events[OF pl] obtain evs where e: "tr2 = ?tr1 @ evs" "updates evs = []"
    "getitem lc' ''row_num'' = getitem lc ''row_num''" by blast
  have row': "sheet_row w lc' = Inr row" using row e(3) by (simp add: sheet_row_def)
  have t: "run_try w \<lparr>rq_worksheet_url = Some url, rq_tool_config = Some tc,
                rq_line_config = Some lc, rq_status_columns = Some cols\<rparr> od [(NewLoggingClient, None)]
      = ((None, \<lparr>r_worksheet_url = Some url, r_tool_config = Some tc, r_line_config = Some lc',
                 r_status_columns = Some cols, r_status = Some status\<rparr>),
         tr2 @ [(OpenByUrl url, None), (Worksheet ws, None), (Update rng [status, now w tr2, message], None)])"
    using pl r ws row'
    by (simp add: run_try_def Let_def perform_never_raises[OF sheet] bind_def lift_def
        update_google_sheet_ok[OF sheet rng])
  have "run w environ data [] = (Returned ''OK'' 200,
          tr2 @ [(OpenByUrl url, None), (Worksheet ws, None), (Update rng [status, now w tr2, message], None)])"
    using env od dec t by (simp add: run_def perform_never_raises[OF logs])
  with e r show ?thesis by (simp add: updates_append)
qed

subsection \<open>The answer of clean-up does not matter\<close>

lemma with_clean_up_fields [simp]:
  "now (with_clean_up w f) = now w"
  "gfile_exists (with_clean_up w f) = gfile_exists w"
  "dubber_use_elevenlabs (with_clean_up w f) = dubber_use_elevenlabs w"
  "video_file (with_clean_up w f) = video_file w"
  "literal_eval (with_clean_up w f) = literal_eval w"
  "json_loads (with_clean_up w f) = json_loads w"
  "py_int (with_clean_up w f) = py_int w"
  "py_float (with_clean_up w f) = py_float w"
  "py_getitem (with_clean_up w f) = py_getitem w"
  "py_repr (with_clean_up w f) = py_repr w"
  "str_format (with_clean_up w f) = str_format w"
  "decode_request (with_clean_up w f) = decode_request w"
  by (simp_all add: with_clean_up_def)

lemma perform_with_clean_up:
  "perform (with_clean_up w f) (Makedirs x) = perform w (Makedirs x)"
  "perform (with_clean_up w f) (Download b s x) = perform w (Download b s x)"
  "perform (with_clean_up w f) (NewDubber d) = perform w (NewDubber d)"
  "perform (with_clean_up w f) (DubAdFromScriptElevenlabs d sc tp v) = perform w (DubAdFromScriptElevenlabs d sc tp v)"
  "perform (with_clean_up w f) (DubAdFromScriptGoogle d sc tp v) = perform w (DubAdFromScriptGoogle d sc tp v)"
  "perform (with_clean_up w f) (DubAd d) = perform w (DubAd d)"
  "perform (with_clean_up w f) (Upload bk s x) = perform w (Upload bk s x)"
  "perform (with_clean_up w f) (Log e) = perform w (Log e)"
  "perform (with_clean_up w f) (LogFailure tag p) = perform w (LogFailure tag p)"
  by (simp_all add: perform_def with_clean_up_def fun_eq_iff)

lemma dubber_arguments_with_clean_up:
  "dubber_arguments (with_clean_up w f) = dubber_arguments w"
  unfolding dubber_arguments_def with_clean_up_fields by (rule refl)

lemma configure_dubber_with_clean_up:
  "configure_dubber (with_clean_up w f) = configure_dubber w"
  unfolding configure_dubber_def dubber_arguments_with_clean_up download_file_from_gcs_def
    perform_with_clean_up with_clean_up_fields by (rule refl)

lemma dub_ad_from_script_with_clean_up:
  "dub_ad_from_script (with_clean_up w f) = dub_ad_from_script w"
  unfolding dub_ad_from_script_def perform_with_clean_up with_clean_up_fields by (rule refl)

lemma upload_dubbed_file_with_clean_up:
  "upload_dubbed_file (with_clean_up w f) = upload_dubbed_file w"
  unfolding upload_dubbed_file_def upload_file_to_gcs_def build_file_name_def format_value_def
    perform_with_clean_up with_clean_up_fields by (rule refl)

lemma dub_language_with_clean_up:
  "dub_language (with_clean_up w f) = dub_language w"
  unfolding dub_language_def configure_dubber_with_clean_up dub_ad_from_script_with_clean_up
    upload_dubbed_file_with_clean_up perform_with_clean_up by (rule refl)

lemma dub_languages_with_clean_up:
  "dub_languages (with_clean_up w f) tc od voices langs st tr = dub_languages w tc od voices langs st tr"
  by (induction langs arbitrary: st tr)
    (simp_all add: dub_language_with_clean_up split: prod.splits option.splits)

lemma process_line_try_with_clean_up:
  "process_line_try (with_clean_up w f) = process_line_try w"
  unfolding process_line_try_def target_languages_def dub_languages_with_clean_up
    with_clean_up_fields by (rule refl)

lemma process_line_with_clean_up:
  "fst (process_line (with_clean_up w f) tc lc url od tr) = fst (process_line w tc lc url od tr)"
  by (simp add: process_line_def process_line_try_with_clean_up perform_with_clean_up Let_def
      split: prod.splits sum.splits option.splits)

subsection \<open>The loop of the splitter\<close>

lemma status_range_splitter:
  "status_range STATUS_COLUMNS row = Inr (''P'' @ str_int row @ '':R'' @ str_int row)"
  by (simp add: status_range_def getitem_def STATUS_COLUMNS_def)

lemma update_google_sheet_splitter_ok:
  assumes "never_raises w is_sheet"
  shows "update_google_sheet_splitter w url ws row status message tr =
           (Inr (), tr @ [(OpenByUrl url, None), (Worksheet ws, None),
              (Update (''P'' @ str_int row @ '':R'' @ str_int row) [status, now w tr, message], None)])"
  using assms
  by (simp add: update_google_sheet_splitter_def bind_def lift_def status_range_splitter Let_def
      perform_never_raises)

lemma body_publish_ok:
  assumes "respond w tr (Publish p t (row_payload url tc rl)) = None"
    and "never_raises w is_sheet"
    and "getitem tc ''DUBBING_CONFIG'' = Inr ws"
  shows "process_lines_body w p t tc url rl tr =
           (Inr (), tr @ [(Publish p t (row_payload url tc rl), None),
              (OpenByUrl url, None), (Worksheet ws, None),
              (Update (''P'' @ str_int (int (fst rl) + 2) @ '':R'' @ str_int (int (fst rl) + 2))
                 [STATUS_PROCESSING, now w (tr @ [(Publish p t (row_payload url tc rl), None)]), ''''], None)])"
  using assms
  by (simp add: process_lines_body_def publish_pubsub_def perform_def bind_def lift_def Let_def
      row_payload_def update_google_sheet_splitter_ok STATUS_PROCESSING_def STATUS_FAILED_def)

lemma body_publish_fails:
  assumes "respond w tr (Publish p t (row_payload url tc rl)) = Some e"
    and "never_raises w is_sheet" and "never_raises w is_log"
    and "getitem tc ''DUBBING_CONFIG'' = Inr ws"
  shows "process_lines_body w p t tc url rl tr =
           (Inr (), tr @ [(Publish p t (row_payload url tc rl), Some e),
              (Log e, None),
              (LogFailure FAILED_STATUS_FOR_REPORTING_SPLITTER
                 (failure_payload FAILED_STATUS_FOR_REPORTING_SPLITTER url e), None),
              (OpenByUrl url, None), (Worksheet ws, None),
              (Update (''P'' @ str_int (int (fst rl) + 2) @ '':R'' @ str_int (int (fst rl) + 2))
                 [STATUS_FAILED,
                  now w (tr @ [(Publish p t (row_payload url tc rl), Some e), (Log e, None),
                    (LogFailure FAILED_STATUS_FOR_REPORTING_SPLITTER
                       (failure_payload FAILED_STATUS_FOR_REPORTING_SPLITTER url e), None)]),
                  lp_message (failure_payload FAILED_STATUS_FOR_REPORTING_SPLITTER url e)], None)])"
  using assms
  by (simp add: process_lines_body_def publish_pubsub_def perform_def bind_def lift_def Let_def
      row_payload_def update_google_sheet_splitter_ok STATUS_PROCESSING_def STATUS_FAILED_def
      never_raises_def[of w is_log])

lemma body_attempts:
  assumes H: "never_raises w (\<lambda>c. \<not> is_publish c)"
    and ws: "getitem tc ''DUBBING_CONFIG'' = Inr ws"
  shows "\<exists>evs. process_lines_body w p t tc url rl tr = (Inr (), tr @ evs)
           \<and> publish_attempts evs =
               [(row_payload url tc rl, respond w tr (Publish p t (row_payload url tc rl)))]"
proof (cases "respond w tr (Publish p t (row_payload url tc rl))")
  case None
  from body_publish_ok[OF None not_publish_sheet[OF H] ws] None show ?thesis by simp
next
  case (Some e)
  from body_publish_fails[OF Some not_publish_sheet[OF H] not_publish_log[OF H] ws] Some
  show ?thesis by simp
qed

lemma loop_attempts:
  assumes H: "never_raises w (\<lambda>c. \<not> is_publish c)"
    and ws: "getitem tc ''DUBBING_CONFIG'' = Inr ws"
  shows "\<exists>evs. process_lines_loop w p t tc url rows tr = (Inr (), tr @ evs)
           \<and> map fst (publish_attempts evs) = map (row_payload url tc) rows"
proof (induction rows arbitrary: tr)
  case Nil
  show ?case by simp
next
  case (Cons rl rest)
  from body_attempts[OF H ws, of p t url rl tr] obtain evs1 where
    e1: "process_lines_body w p t tc url rl tr = (Inr (), tr @ evs1)"
      "publish_attempts evs1 =
               [(row_payload url tc rl, respond w tr (Publish p t (row_payload url tc rl)))]"
    by blast
  from Cons.IH[of "tr @ evs1"] obtain evs2 where
    e2: "process_lines_loop w p t tc url rest (tr @ evs1) = (Inr (), (tr @ evs1) @ evs2)"
      "map fst (publish_attempts evs2) = map (row_payload url tc) rest"
    by blast
  have "process_lines_loop w p t tc url (rl # rest) tr = (Inr (), tr @ (evs1 @ evs2))"
    using e1(1) e2(1) by simp
  moreover have "map fst (publish_attempts (evs1 @ evs2)) = map (row_payload url tc) (rl # rest)"
    using e1(2) e2(2) by (simp add: publish_attempts_append)
  ultimately show ?case by blast
qed

lemma process_lines_attempts:
  assumes H: "never_raises w (\<lambda>c. \<not> is_publish c)"
    and ws: "getitem tc ''DUBBING_CONFIG'' = Inr ws"
  shows "fst (process_lines w p t tc cfg url tr) = Inr ()
       \<and> map fst (publish_attempts (new_events (process_lines w p t tc cfg url) tr))
           = map (row_payload url tc) (enumerate 0 cfg)"
proof -
  let ?tr1 = "tr @ [(NewPublisherClient, None)]"
  from loop_attempts[OF H ws, of p t url "enumerate 0 cfg" ?tr1] obtain evs where
    e: "process_lines_loop w p t tc url (enumerate 0 cfg) ?tr1 = (Inr (), ?tr1 @ evs)"
      "map fst (publish_attempts evs) = map (row_payload url tc) (enumerate 0 cfg)" by blast
  have "process_lines w p t tc cfg url tr = (Inr (), tr @ ((NewPublisherClient, None) # evs))"
    using e(1) by (simp add: process_lines_def bind_def perform_never_raises[OF H])
  with e(2) show ?thesis by (simp add: new_events_def)
qed

subsection \<open>The sample worlds\<close>

lemma sample_ws: "getitem sample_tool_config ''DUBBING_CONFIG'' = Inr (PStr ''Jobs'')"
  by (simp add: getitem_def sample_tool_config_def)

lemma publish_times_out_others:
  "never_raises (sample_world publish_times_out) (\<lambda>c. \<not> is_publish c)"
  by (auto simp: never_raises_def sample_world_def publish_times_out_def split: call.splits)

lemma calm_never_raises: "never_raises (sample_world calm) P"
  by (simp add: never_raises_def sample_world_def calm_def)

section \<open>The claims\<close>

subsection \<open>C1: Status write-back\<close>

text \<open>
  Claim C1, as amended. Provided logging and the sheet calls do not raise:
  a row whose publish raised gets exactly one status from the splitter, \<open>FAILED\<close>, written by
  the \<^verbatim>\<open>finally\<close> block to sheet row \<open>row_num + 2\<close>; and a job message that decodes with its
  four fields (a tool configuration naming the job sheet, a row configuration with a readable
  \<^verbatim>\<open>row_num\<close>, status columns naming the status and message columns) gets exactly one status
  from the worker, \<open>OK\<close> or \<open>FAILED\<close>, whatever the engine, the bucket and the parsers do.
  The worker's write is the last statement of its \<^verbatim>\<open>try\<close> block, reached because
  \<^verbatim>\<open>_process_line\<close> turns every failure into a returned pair.
\<close>

theorem status_written_once:
  assumes "never_raises w is_log" and "never_raises w is_sheet"
  shows "(\<forall>e ws. respond w tr (Publish project_id pubsub_topic (row_payload worksheet_url tool_config rl)) = Some e
              \<and> getitem tool_config ''DUBBING_CONFIG'' = Inr ws \<longrightarrow>
            (\<exists>time message. updates (new_events
                 (process_lines_body w project_id pubsub_topic tool_config worksheet_url rl) tr)
               = [(''P'' @ str_int (int (fst rl) + 2) @ '':R'' @ str_int (int (fst rl) + 2),
                   [STATUS_FAILED, time, message])]))
       \<and> (\<forall>url tc lc cols ws row rng.
              list_all (\<lambda>elem. environ elem \<noteq> None) required_elem
            \<and> decode_request w data = Inr \<lparr>rq_worksheet_url = Some url, rq_tool_config = Some tc,
                  rq_line_config = Some lc, rq_status_columns = Some cols\<rparr>
            \<and> getitem tc ''DUBBING_CONFIG'' = Inr ws
            \<and> sheet_row w lc = Inr row
            \<and> status_range cols row = Inr rng \<longrightarrow>
            (\<exists>status time message.
                 fst (run w environ data []) = Returned ''OK'' 200
               \<and> updates (snd (run w environ data [])) = [(rng, [status, time, message])]
               \<and> (status = STATUS_SUCCESS \<or> status = STATUS_FAILED)))"
proof (intro conjI allI impI)
  fix e ws
  assume a: "respond w tr (Publish project_id pubsub_topic (row_payload worksheet_url tool_config rl)) = Some e
              \<and> getitem tool_config ''DUBBING_CONFIG'' = Inr ws"
  from body_publish_fails[of w tr project_id pubsub_topic worksheet_url tool_config rl e ws] a assms
  show "\<exists>time message. updates (new_events
                 (process_lines_body w project_id pubsub_topic tool_config worksheet_url rl) tr)
               = [(''P'' @ str_int (int (fst rl) + 2) @ '':R'' @ str_int (int (fst rl) + 2),
                   [STATUS_FAILED, time, message])]"
    by (simp add: new_events_def)
next
  fix url tc lc cols ws row rng
  assume a: "list_all (\<lambda>elem. environ elem \<noteq> None) required_elem
            \<and> decode_request w data = Inr \<lparr>rq_worksheet_url = Some url, rq_tool_config = Some tc,
                  rq_line_config = Some lc, rq_status_columns = Some cols\<rparr>
            \<and> getitem tc ''DUBBING_CONFIG'' = Inr ws
            \<and> sheet_row w lc = Inr row
            \<and> status_range cols row = Inr rng"
  show "\<exists>status time message.
                 fst (run w environ data []) = Returned ''OK'' 200
               \<and> updates (snd (run w environ data [])) = [(rng, [status, time, message])]
               \<and> (status = STATUS_SUCCESS \<or> status = STATUS_FAILED)"
    using a assms by (intro run_well_formed[of environ w data url tc lc cols ws row rng]) simp_all
qed

text \<open>The theorem at the sample row (publishing times out) and at the sample message (a job
  with nothing to dub).\<close>

theorem status_written_once_witness:
  "(\<exists>time message. updates (new_events (process_lines_body (sample_world publish_times_out) ''proj''
        ''ariel-jobs'' sample_tool_config (PStr ''https://sheet'') (0, sample_config_line)) [])
      = [(''P2:R2'', [''FAILED'', time, message])])
   \<and> (\<exists>status time message.
         fst (run (sample_world calm) sample_environ sample_message []) = Returned ''OK'' 200
       \<and> updates (snd (run (sample_world calm) sample_environ sample_message []))
           = [(''P2:R2'', [status, time, message])]
       \<and> (status = STATUS_SUCCESS \<or> status = STATUS_FAILED))"
proof -
  have two: "str_int 2 = ''2''" by code_simp
  have failed: "respond (sample_world publish_times_out) [] (Publish ''proj'' ''ariel-jobs''
      (row_payload (PStr ''https://sheet'') sample_tool_config (0, sample_config_line)))
      = Some ''504 Deadline Exceeded''"
    by (simp add: sample_world_def publish_times_out_def)
  have sheet: "never_raises (sample_world publish_times_out) is_sheet"
    by (rule not_publish_sheet[OF publish_times_out_others])
  have logs: "never_raises (sample_world publish_times_out) is_log"
    by (rule not_publish_log[OF publish_times_out_others])
  from status_written_once[OF logs sheet, where tr = "[]" and project_id = "''proj''"
      and pubsub_topic = "''ariel-jobs''" and worksheet_url = "PStr ''https://sheet''"
      and tool_config = sample_tool_config and rl = "(0, sample_config_line)"]
    failed sample_ws
  have a: "\<exists>time message. updates (new_events (process_lines_body (sample_world publish_times_out) ''proj''
        ''ariel-jobs'' sample_tool_config (PStr ''https://sheet'') (0, sample_config_line)) [])
      = [(''P2:R2'', [''FAILED'', time, message])]"
    by (simp add: two STATUS_FAILED_def)
  have env: "list_all (\<lambda>elem. sample_environ elem \<noteq> None) required_elem"
    by (simp add: required_elem_def sample_environ_def)
  have dec: "decode_request (sample_world calm) sample_message
      = Inr \<lparr>rq_worksheet_url = Some (PStr ''https://sheet''),
             rq_tool_config = Some [(''DUBBING_CONFIG'', PStr ''Jobs'')],
             rq_line_config = Some sample_idle_line,
             rq_status_columns = Some STATUS_COLUMNS\<rparr>"
    by (simp add: sample_world_def sample_decode_def sample_request_def sample_idle_line_def)
  have ws: "getitem [(''DUBBING_CONFIG'', PStr ''Jobs'')] ''DUBBING_CONFIG'' = Inr (PStr ''Jobs'')"
    by (simp add: getitem_def)
  have row: "sheet_row (sample_world calm) sample_idle_line = Inr 2"
    by (simp add: sheet_row_def getitem_def sample_idle_line_def sample_world_def sample_int_def)
  have rng: "status_range STATUS_COLUMNS 2 = Inr ''P2:R2''"
    by (simp add: status_range_splitter two)
  from status_written_once[OF calm_never_raises calm_never_raises, where environ = sample_environ
      and data = sample_message] env dec ws row rng
  have b: "\<exists>status time message.
         fst (run (sample_world calm) sample_environ sample_message []) = Returned ''OK'' 200
       \<and> updates (snd (run (sample_world calm) sample_environ sample_message []))
           = [(''P2:R2'', [status, time, message])]
       \<and> (status = STATUS_SUCCESS \<or> status = STATUS_FAILED)"
    by blast
  from a b show ?thesis by blast
qed

text \<open>
  As stated, C1 fails for a malformed payload: a message that cannot be decoded is read
  before the \<^verbatim>\<open>try\<close> block, and a message without \<^verbatim>\<open>tool_config\<close> sends the handler to a
  variable that was never bound. Both runs end with an exception and not one call to the
  sheet.
\<close>

theorem malformed_message_leaves_no_status:
  "run (sample_world calm) sample_environ ''e30'' []
     = (Raised ''Incorrect padding'', [(NewLoggingClient, None)])
   \<and> run (sample_world calm) sample_environ sample_message_url_only []
     = (Raised (unbound_local ''tool_config''), [(NewLoggingClient, None)])"
  by code_simp

subsection \<open>C2: What the splitter writes\<close>

text \<open>
  Claim C2, as amended. When the sheet can be written, the \<^verbatim>\<open>finally\<close> block of the splitter
  writes to the status cells of every row: \<open>PROCESSING\<close> with an empty message for a row whose
  payload was published, and \<open>FAILED\<close> with the failure message for a row whose publish raised
  (the handler's logging calls returning). The cells are those of sheet row \<open>row_num + 2\<close>.
\<close>

theorem splitter_status_after_publish:
  assumes "never_raises w is_sheet"
    and "getitem tool_config ''DUBBING_CONFIG'' = Inr ws"
  shows "(respond w tr (Publish project_id pubsub_topic (row_payload worksheet_url tool_config rl)) = None \<longrightarrow>
            (\<exists>time. updates (new_events
                (process_lines_body w project_id pubsub_topic tool_config worksheet_url rl) tr)
              = [(''P'' @ str_int (int (fst rl) + 2) @ '':R'' @ str_int (int (fst rl) + 2),
                  [STATUS_PROCESSING, time, ''''])]))
       \<and> (\<forall>e. respond w tr (Publish project_id pubsub_topic (row_payload worksheet_url tool_config rl)) = Some e
               \<and> never_raises w is_log \<longrightarrow>
            (\<exists>time. updates (new_events
                (process_lines_body w project_id pubsub_topic tool_config worksheet_url rl) tr)
              = [(''P'' @ str_int (int (fst rl) + 2) @ '':R'' @ str_int (int (fst rl) + 2),
                  [STATUS_FAILED, time,
                   if length e > 1 then e
                   else ''Check you shared the spreadsheet with the service account''])]))"
proof (intro conjI allI impI)
  assume "respond w tr (Publish project_id pubsub_topic (row_payload worksheet_url tool_config rl)) = None"
  from body_publish_ok[OF this assms]
  show "\<exists>time. updates (new_events
                (process_lines_body w project_id pubsub_topic tool_config worksheet_url rl) tr)
              = [(''P'' @ str_int (int (fst rl) + 2) @ '':R'' @ str_int (int (fst rl) + 2),
                  [STATUS_PROCESSING, time, ''''])]"
    by (simp add: new_events_def)
next
  fix e
  assume "respond w tr (Publish project_id pubsub_topic (row_payload worksheet_url tool_config rl)) = Some e
               \<and> never_raises w is_log"
  then have "respond w tr (Publish project_id pubsub_topic (row_payload worksheet_url tool_config rl)) = Some e"
    and "never_raises w is_log" by simp_all
  from body_publish_fails[OF this(1) assms(1) this(2) assms(2)]
  show "\<exists>time. updates (new_events
                (process_lines_body w project_id pubsub_topic tool_config worksheet_url rl) tr)
              = [(''P'' @ str_int (int (fst rl) + 2) @ '':R'' @ str_int (int (fst rl) + 2),
                  [STATUS_FAILED, time,
                   if length e > 1 then e
                   else ''Check you shared the spreadsheet with the service account''])]"
    by (simp add: new_events_def failure_payload_def)
qed

text \<open>The theorem at the first row of the sample sheet, published and timed out.\<close>

theorem splitter_status_after_publish_witness:
  "(\<exists>time. updates (new_events (process_lines_body (sample_world calm) ''proj'' ''ariel-jobs''
        sample_tool_config (PStr ''https://sheet'') (0, sample_config_line)) [])
      = [(''P2:R2'', [''PROCESSING'', time, ''''])])
   \<and> (\<exists>time. updates (new_events (process_lines_body (sample_world publish_times_out) ''proj''
        ''ariel-jobs'' sample_tool_config (PStr ''https://sheet'') (0, sample_config_line)) [])
      = [(''P2:R2'', [''FAILED'', time, ''504 Deadline Exceeded''])])"
proof -
  have two: "str_int 2 = ''2''" by code_simp
  have ok: "respond (sample_world calm) [] (Publish ''proj'' ''ariel-jobs''
      (row_payload (PStr ''https://sheet'') sample_tool_config (0, sample_config_line))) = None"
    by (simp add: sample_world_def calm_def)
  have failed: "respond (sample_world publish_times_out) [] (Publish ''proj'' ''ariel-jobs''
      (row_payload (PStr ''https://sheet'') sample_tool_config (0, sample_config_line)))
      = Some ''504 Deadline Exceeded''"
    by (simp add: sample_world_def publish_times_out_def)
  have sheet: "never_raises (sample_world publish_times_out) is_sheet"
    by (rule not_publish_sheet[OF publish_times_out_others])
  have logs: "never_raises (sample_world publish_times_out) is_log"
    by (rule not_publish_log[OF publish_times_out_others])
  from splitter_status_after_publish[OF calm_never_raises sample_ws,
      of "[]" "''proj''" "''ariel-jobs''" "PStr ''https://sheet''" "(0, sample_config_line)"] ok
  have a: "\<exists>time. updates (new_events (process_lines_body (sample_world calm) ''proj'' ''ariel-jobs''
        sample_tool_config (PStr ''https://sheet'') (0, sample_config_line)) [])
      = [(''P2:R2'', [''PROCESSING'', time, ''''])]"
    by (simp add: two STATUS_PROCESSING_def)
  from splitter_status_after_publish[OF sheet sample_ws,
      of "[]" "''proj''" "''ariel-jobs''" "PStr ''https://sheet''" "(0, sample_config_line)"]
    failed logs
  have b: "\<exists>time. updates (new_events (process_lines_body (sample_world publish_times_out) ''proj''
        ''ariel-jobs'' sample_tool_config (PStr ''https://sheet'') (0, sample_config_line)) [])
      = [(''P2:R2'', [''FAILED'', time, ''504 Deadline Exceeded''])]"
    by (simp add: two STATUS_FAILED_def)
  from a b show ?thesis by blast
qed

text \<open>
  As stated, C2 fails on the happy path: with every call returning, the one row is published
  and the splitter writes \<open>PROCESSING\<close> to its status cells.
\<close>

theorem splitter_writes_processing:
  "updates (snd (process_lines (sample_world calm) ''proj'' ''ariel-jobs''
       sample_tool_config [sample_config_line] (PStr ''https://sheet'') []))
     = [(''P2:R2'', [''PROCESSING'', ''2025-01-01 12:00:00'', ''''])]
   \<and> map snd (publish_attempts (snd (process_lines (sample_world calm) ''proj'' ''ariel-jobs''
       sample_tool_config [sample_config_line] (PStr ''https://sheet'') [])))
     = [None]"
  by code_simp

subsection \<open>C3: Merging a row with the defaults\<close>

text \<open>
  Claim C3. The merged row has exactly the keys of the default template, in its order; each
  key has the row's value when the row has a non-empty one and the default otherwise; the
  result depends on the row only through the template's keys; and the empty row gives the
  template back.
\<close>

theorem merged_line_spec:
  "map fst (merged_line D R) = map fst D
   \<and> (\<forall>k \<in> fst ` set D.
        map_of (merged_line D R) k =
          (case R k of None \<Rightarrow> map_of D k | Some v \<Rightarrow> if v = [] then map_of D k else Some v))
   \<and> (\<forall>R'. (\<forall>k \<in> fst ` set D. R' k = R k) \<longrightarrow> merged_line D R' = merged_line D R)
   \<and> merged_line D Map.empty = D"
proof (intro conjI ballI allI impI)
  show "map fst (merged_line D R) = map fst D"
    by (simp add: merged_line_def case_prod_unfold)
next
  fix k assume "k \<in> fst ` set D"
  then obtain d where "map_of D k = Some d"
    by (metis map_of_eq_None_iff not_Some_eq)
  then show "map_of (merged_line D R) k =
          (case R k of None \<Rightarrow> map_of D k | Some v \<Rightarrow> if v = [] then map_of D k else Some v)"
    by (simp add: map_of_merged_line split: option.splits)
next
  fix R' assume "\<forall>k \<in> fst ` set D. R' k = R k"
  then show "merged_line D R' = merged_line D R"
    by (auto simp: merged_line_def)
next
  show "merged_line D Map.empty = D"
    by (simp add: merged_line_def case_prod_unfold)
qed

text \<open>The theorem at the default template and the sample row: a filled cell, an empty cell
  and a column the row does not have.\<close>

theorem merged_line_spec_witness:
  "map_of (merged_line DEFAULT_DUBBING_CONFIG sample_row) ''video_url'' = Some ''bkt/in.mp4''
   \<and> map_of (merged_line DEFAULT_DUBBING_CONFIG sample_row) ''status'' = Some []
   \<and> map_of (merged_line DEFAULT_DUBBING_CONFIG sample_row) ''voice_provider'' = Some ''Google''
   \<and> map fst (merged_line DEFAULT_DUBBING_CONFIG sample_row) = map fst DEFAULT_DUBBING_CONFIG
   \<and> merged_line DEFAULT_DUBBING_CONFIG Map.empty = DEFAULT_DUBBING_CONFIG"
proof -
  note spec = merged_line_spec[of DEFAULT_DUBBING_CONFIG sample_row]
  have keys: "''video_url'' \<in> fst ` set DEFAULT_DUBBING_CONFIG"
    "''status'' \<in> fst ` set DEFAULT_DUBBING_CONFIG"
    "''voice_provider'' \<in> fst ` set DEFAULT_DUBBING_CONFIG"
    by (simp_all add: DEFAULT_DUBBING_CONFIG_def)
  from spec keys(1) have "map_of (merged_line DEFAULT_DUBBING_CONFIG sample_row) ''video_url'' =
      (case sample_row ''video_url'' of None \<Rightarrow> map_of DEFAULT_DUBBING_CONFIG ''video_url''
       | Some v \<Rightarrow> if v = [] then map_of DEFAULT_DUBBING_CONFIG ''video_url'' else Some v)"
    by blast
  then have a: "map_of (merged_line DEFAULT_DUBBING_CONFIG sample_row) ''video_url'' = Some ''bkt/in.mp4''"
    by (simp add: sample_row_def)
  from spec keys(2) have "map_of (merged_line DEFAULT_DUBBING_CONFIG sample_row) ''status'' =
      (case sample_row ''status'' of None \<Rightarrow> map_of DEFAULT_DUBBING_CONFIG ''status''
       | Some v \<Rightarrow> if v = [] then map_of DEFAULT_DUBBING_CONFIG ''status'' else Some v)"
    by blast
  then have b: "map_of (merged_line DEFAULT_DUBBING_CONFIG sample_row) ''status'' = Some []"
    by (simp add: sample_row_def DEFAULT_DUBBING_CONFIG_def)
  from spec keys(3) have "map_of (merged_line DEFAULT_DUBBING_CONFIG sample_row) ''voice_provider'' =
      (case sample_row ''voice_provider'' of None \<Rightarrow> map_of DEFAULT_DUBBING_CONFIG ''voice_provider''
       | Some v \<Rightarrow> if v = [] then map_of DEFAULT_DUBBING_CONFIG ''voice_provider'' else Some v)"
    by blast
  then have c: "map_of (merged_line DEFAULT_DUBBING_CONFIG sample_row) ''voice_provider'' = Some ''Google''"
    by (simp add: sample_row_def DEFAULT_DUBBING_CONFIG_def VOICE_PROVIDER_GOOGLE_def)
  from spec a b c show ?thesis by blast
qed

subsection \<open>C4: One payload per row\<close>

text \<open>
  Claim C4, as amended. Provided no call other than publishing raises (creating the publisher
  client, the handler's logging, the status write) and the tool configuration names the job
  sheet, \<^verbatim>\<open>_process_lines\<close> returns after handing exactly one payload per row to the publisher,
  in row order, acknowledged or not; the payload at position \<open>i\<close> carries \<^verbatim>\<open>row_num == i\<close>, the
  other fields of row \<open>i\<close> unchanged, the worksheet URL, the tool configuration and the
  status-column layout.
\<close>

theorem process_lines_one_payload_per_row:
  assumes "never_raises w (\<lambda>c. \<not> is_publish c)"
    and "getitem tool_config ''DUBBING_CONFIG'' = Inr ws"
  shows "fst (process_lines w project_id pubsub_topic tool_config dubbing_config worksheet_url tr) = Inr ()
       \<and> length (publish_attempts
            (new_events (process_lines w project_id pubsub_topic tool_config dubbing_config worksheet_url) tr))
           = length dubbing_config
       \<and> (\<forall>i < length dubbing_config.
            let pl = fst (publish_attempts
                 (new_events (process_lines w project_id pubsub_topic tool_config dubbing_config worksheet_url) tr) ! i)
            in getitem (pl_line_config pl) ''row_num'' = Inr (PInt (int i))
             \<and> (\<forall>k. k \<noteq> ''row_num'' \<longrightarrow> getitem (pl_line_config pl) k = getitem (dubbing_config ! i) k)
             \<and> pl_worksheet_url pl = worksheet_url
             \<and> pl_tool_config pl = tool_config
             \<and> pl_status_columns pl = STATUS_COLUMNS)"
proof -
  let ?att = "publish_attempts
            (new_events (process_lines w project_id pubsub_topic tool_config dubbing_config worksheet_url) tr)"
  from process_lines_attempts[OF assms, of project_id pubsub_topic dubbing_config worksheet_url tr]
  have ok: "fst (process_lines w project_id pubsub_topic tool_config dubbing_config worksheet_url tr) = Inr ()"
    and att: "map fst ?att = map (row_payload worksheet_url tool_config) (enumerate 0 dubbing_config)"
    by simp_all
  from att have len: "length ?att = length dubbing_config"
    by (metis length_enumerate length_map)
  have nth: "fst (?att ! i) = row_payload worksheet_url tool_config (i, dubbing_config ! i)"
    if "i < length dubbing_config" for i
  proof -
    have "fst (?att ! i) = map fst ?att ! i" using that len by simp
    also have "\<dots> = row_payload worksheet_url tool_config (enumerate 0 dubbing_config ! i)"
      using that by (simp add: att)
    finally show ?thesis using that by (simp add: nth_enumerate_eq)
  qed
  show ?thesis
    using ok len by (simp add: Let_def nth getitem_row_payload) (simp add: row_payload_def)
qed

text \<open>The theorem at a sheet of two rows while publishing times out.\<close>

theorem process_lines_one_payload_per_row_witness:
  "never_raises (sample_world publish_times_out) (\<lambda>c. \<not> is_publish c)
   \<and> getitem sample_tool_config ''DUBBING_CONFIG'' = Inr (PStr ''Jobs'')
   \<and> fst (process_lines (sample_world publish_times_out) ''proj'' ''ariel-jobs'' sample_tool_config
        [sample_config_line, sample_config_line] (PStr ''https://sheet'') []) = Inr ()
   \<and> length (publish_attempts (new_events (process_lines (sample_world publish_times_out) ''proj''
        ''ariel-jobs'' sample_tool_config [sample_config_line, sample_config_line]
        (PStr ''https://sheet'')) [])) = 2
   \<and> getitem (pl_line_config (fst (publish_attempts (new_events (process_lines
        (sample_world publish_times_out) ''proj'' ''ariel-jobs'' sample_tool_config
        [sample_config_line, sample_config_line] (PStr ''https://sheet'')) []) ! 1))) ''row_num''
      = Inr (PInt 1)"
proof -
  note inst = process_lines_one_payload_per_row[OF publish_times_out_others sample_ws,
      of "''proj''" "''ariel-jobs''" "[sample_config_line, sample_config_line]"
         "PStr ''https://sheet''" "[]"]
  from inst have "getitem (pl_line_config (fst (publish_attempts (new_events (process_lines
        (sample_world publish_times_out) ''proj'' ''ariel-jobs'' sample_tool_config
        [sample_config_line, sample_config_line] (PStr ''https://sheet'')) []) ! 1))) ''row_num''
      = Inr (PInt 1)"
    by (auto simp: Let_def)
  with inst publish_times_out_others sample_ws show ?thesis by simp
qed

text \<open>
  As stated, C4 fails when the status write of a row raises: the \<^verbatim>\<open>finally\<close> block is not
  guarded, the exception leaves the loop, and of two rows only the first is published.
\<close>

theorem process_lines_stops_at_failed_status_write:
  "map fst (publish_attempts (snd (process_lines (sample_world sheet_quota_exceeded) ''proj'' ''ariel-jobs''
       sample_tool_config [sample_config_line, sample_config_line] (PStr ''https://sheet'') [])))
     = [row_payload (PStr ''https://sheet'') sample_tool_config (0, sample_config_line)]
   \<and> fst (process_lines (sample_world sheet_quota_exceeded) ''proj'' ''ariel-jobs''
       sample_tool_config [sample_config_line, sample_config_line] (PStr ''https://sheet'') [])
     = Inl ''APIError: [429]: Quota exceeded''"
  by code_simp

subsection \<open>C5: A failed publish does not stop the loop\<close>

text \<open>
  Claim C5, as amended. A publish that raises is caught at the row: provided no call other than
  publishing raises and the tool configuration names the job sheet, whenever publishing row
  \<open>i\<close> raised, \<^verbatim>\<open>_process_lines\<close> still returns normally and the publish calls after it are those
  of rows \<open>i+1 .. N-1\<close>, in order.
\<close>

theorem process_lines_isolates_publish_failure:
  assumes "never_raises w (\<lambda>c. \<not> is_publish c)"
    and "getitem tool_config ''DUBBING_CONFIG'' = Inr ws"
    and "i < length dubbing_config"
    and "snd (publish_attempts
            (new_events (process_lines w project_id pubsub_topic tool_config dubbing_config worksheet_url) tr) ! i)
          = Some e"
  shows "fst (process_lines w project_id pubsub_topic tool_config dubbing_config worksheet_url tr) = Inr ()
       \<and> length (publish_attempts
            (new_events (process_lines w project_id pubsub_topic tool_config dubbing_config worksheet_url) tr))
           = length dubbing_config
       \<and> (\<forall>j. i < j \<and> j < length dubbing_config \<longrightarrow>
            fst (publish_attempts
                 (new_events (process_lines w project_id pubsub_topic tool_config dubbing_config worksheet_url) tr) ! j)
              = row_payload worksheet_url tool_config (j, dubbing_config ! j))"
proof -
  let ?att = "publish_attempts
            (new_events (process_lines w project_id pubsub_topic tool_config dubbing_config worksheet_url) tr)"
  from process_lines_attempts[OF assms(1,2), of project_id pubsub_topic dubbing_config worksheet_url tr]
  have ok: "fst (process_lines w project_id pubsub_topic tool_config dubbing_config worksheet_url tr) = Inr ()"
    and att: "map fst ?att = map (row_payload worksheet_url tool_config) (enumerate 0 dubbing_config)"
    by simp_all
  from att have len: "length ?att = length dubbing_config"
    by (metis length_enumerate length_map)
  have "fst (?att ! j) = row_payload worksheet_url tool_config (j, dubbing_config ! j)"
    if "j < length dubbing_config" for j
  proof -
    have "fst (?att ! j) = map fst ?att ! j" using that len by simp
    also have "\<dots> = row_payload worksheet_url tool_config (enumerate 0 dubbing_config ! j)"
      using that by (simp add: att)
    finally show ?thesis using that by (simp add: nth_enumerate_eq)
  qed
  with ok len show ?thesis by simp
qed

text \<open>The theorem at a sheet of two rows while publishing times out: the first publish
  raises, the second row is attempted.\<close>

theorem process_lines_isolates_publish_failure_witness:
  "snd (publish_attempts (new_events (process_lines (sample_world publish_times_out) ''proj''
        ''ariel-jobs'' sample_tool_config [sample_config_line, sample_config_line]
        (PStr ''https://sheet'')) []) ! 0) = Some ''504 Deadline Exceeded''
   \<and> fst (process_lines (sample_world publish_times_out) ''proj'' ''ariel-jobs'' sample_tool_config
        [sample_config_line, sample_config_line] (PStr ''https://sheet'') []) = Inr ()
   \<and> fst (publish_attempts (new_events (process_lines (sample_world publish_times_out) ''proj''
        ''ariel-jobs'' sample_tool_config [sample_config_line, sample_config_line]
        (PStr ''https://sheet'')) []) ! 1)
      = row_payload (PStr ''https://sheet'') sample_tool_config (1, sample_config_line)"
proof -
  have raised: "snd (publish_attempts (new_events (process_lines (sample_world publish_times_out) ''proj''
        ''ariel-jobs'' sample_tool_config [sample_config_line, sample_config_line]
        (PStr ''https://sheet'')) []) ! 0) = Some ''504 Deadline Exceeded''"
    by code_simp
  have i: "0 < length [sample_config_line, sample_config_line]" by simp
  from process_lines_isolates_publish_failure[OF publish_times_out_others sample_ws i raised]
  show ?thesis using raised by simp
qed

text \<open>
  As stated, C5 fails when another step of the row raises as well: publishing the first row
  times out, its status write is refused, and that exception leaves the loop before the
  second row is attempted.
\<close>

theorem process_lines_publish_failure_then_abort:
  "map fst (publish_attempts (snd (process_lines (sample_world outage) ''proj'' ''ariel-jobs''
       sample_tool_config [sample_config_line, sample_config_line] (PStr ''https://sheet'') [])))
     = [row_payload (PStr ''https://sheet'') sample_tool_config (0, sample_config_line)]
   \<and> map snd (publish_attempts (snd (process_lines (sample_world outage) ''proj'' ''ariel-jobs''
       sample_tool_config [sample_config_line, sample_config_line] (PStr ''https://sheet'') [])))
     = [Some ''504 Deadline Exceeded'']
   \<and> fst (process_lines (sample_world outage) ''proj'' ''ariel-jobs''
       sample_tool_config [sample_config_line, sample_config_line] (PStr ''https://sheet'') [])
     = Inl ''APIError: [429]: Quota exceeded''"
  by code_simp

subsection \<open>C6: A successful job\<close>

text \<open>
  Claim C6. When the \<^verbatim>\<open>try\<close> block of \<^verbatim>\<open>_process_line\<close> ends without an exception, the function
  returns \<open>OK\<close> and the comma-joined list of as many paths as there are target languages; the
  engines built and the uploads made during the call alternate, one engine per language in
  list order, each followed by the upload whose path stands at that position of the message.
\<close>

theorem process_line_success:
  assumes "fst (fst (process_line_try w tool_config line_config output_dir tr)) = None"
  shows "\<exists>languages paths.
           target_languages w line_config = Inr languages
         \<and> fst (fst (process_line w tool_config line_config worksheet_url output_dir tr))
             = Inr (STATUS_SUCCESS, join '','' paths)
         \<and> length paths = length languages
         \<and> language_steps w (new_events (process_line w tool_config line_config worksheet_url output_dir) tr)
             = concat (map2 (\<lambda>l p. [Inl l, Inr p]) languages paths)"
proof -
  obtain x st tr1 where t: "process_line_try w tool_config line_config output_dir tr = ((x, st), tr1)"
    by (metis surj_pair)
  with assms have x: "x = None" by simp
  from process_line_try_events[OF t] x obtain evs languages where e: "tr1 = tr @ evs"
    "target_languages w line_config = Inr languages"
    "length (l_paths st) = length languages"
    "language_steps w evs = concat (map2 (\<lambda>l p. [Inl l, Inr p]) languages (l_paths st))"
    by auto
  have r: "fst (fst (process_line w tool_config line_config worksheet_url output_dir tr))
             = Inr (STATUS_SUCCESS, join '','' (l_paths st))"
    using t x by (simp add: process_line_def)
  have "snd (process_line w tool_config line_config worksheet_url output_dir tr)
          = tr @ (evs @ (case l_dubber st of None \<Rightarrow> []
                         | Some h \<Rightarrow> [(CleanUp h, respond w (tr @ evs) (CleanUp h))]))"
    using t x e(1) by (simp add: process_line_def finally_events)
  then have "new_events (process_line w tool_config line_config worksheet_url output_dir) tr
          = evs @ (case l_dubber st of None \<Rightarrow> []
                         | Some h \<Rightarrow> [(CleanUp h, respond w (tr @ evs) (CleanUp h))])"
    by (rule new_events_append)
  then have "language_steps w (new_events (process_line w tool_config line_config worksheet_url output_dir) tr)
          = language_steps w evs"
    by (simp add: language_steps_def dub_steps_append finally_no_steps)
  with r e show ?thesis by (intro exI[of _ languages] exI[of _ "l_paths st"]) simp
qed

text \<open>The theorem at the sample row (French, then German) with every call returning.\<close>

theorem process_line_success_witness:
  "fst (fst (process_line_try (sample_world calm) sample_tool_config sample_line ''/tmp/ariel'' [])) = None
   \<and> fst (fst (process_line (sample_world calm) sample_tool_config sample_line
        (PStr ''https://sheet'') ''/tmp/ariel'' []))
      = Inr (''OK'', ''gs://out/fr.mp4,gs://out/de.mp4'')
   \<and> (\<exists>paths. fst (fst (process_line (sample_world calm) sample_tool_config sample_line
                 (PStr ''https://sheet'') ''/tmp/ariel'' [])) = Inr (STATUS_SUCCESS, join '','' paths)
         \<and> length paths = 2
         \<and> language_steps (sample_world calm) (new_events (process_line (sample_world calm)
              sample_tool_config sample_line (PStr ''https://sheet'') ''/tmp/ariel'') [])
             = concat (map2 (\<lambda>l p. [Inl l, Inr p]) [PStr ''fr'', PStr ''de''] paths))"
proof -
  have a: "fst (fst (process_line_try (sample_world calm) sample_tool_config sample_line ''/tmp/ariel'' [])) = None"
    by code_simp
  have b: "target_languages (sample_world calm) sample_line = Inr [PStr ''fr'', PStr ''de'']"
    by code_simp
  have c: "fst (fst (process_line (sample_world calm) sample_tool_config sample_line
        (PStr ''https://sheet'') ''/tmp/ariel'' []))
      = Inr (''OK'', ''gs://out/fr.mp4,gs://out/de.mp4'')"
    by code_simp
  from process_line_success[OF a, of "PStr ''https://sheet''"] b obtain paths where
    p: "fst (fst (process_line (sample_world calm) sample_tool_config sample_line
                 (PStr ''https://sheet'') ''/tmp/ariel'' [])) = Inr (STATUS_SUCCESS, join '','' paths)"
      "length paths = length [PStr ''fr'', PStr ''de'']"
      "language_steps (sample_world calm) (new_events (process_line (sample_world calm)
              sample_tool_config sample_line (PStr ''https://sheet'') ''/tmp/ariel'') [])
             = concat (map2 (\<lambda>l p. [Inl l, Inr p]) [PStr ''fr'', PStr ''de''] paths)"
    by auto
  from p(2) have "length paths = 2" by simp
  with p a c show ?thesis by blast
qed

subsection \<open>C7: Clean-up\<close>

text \<open>
  Claim C7, as amended. The \<^verbatim>\<open>finally\<close> block calls \<^verbatim>\<open>clean_up()\<close> once, on the engine built
  last, when the call built an engine, and calls nothing when it built none (the attribute
  lookup on \<^verbatim>\<open>None\<close> raises and is dropped); engines built for earlier languages are not
  cleaned up. Whatever \<^verbatim>\<open>clean_up()\<close> answers, the result of \<^verbatim>\<open>_process_line\<close> is the same.
\<close>

theorem clean_up_on_last_engine:
  "clean_ups (new_events (process_line w tool_config line_config worksheet_url output_dir) tr)
     = (if engines (dub_steps w
             (new_events (process_line w tool_config line_config worksheet_url output_dir) tr)) = []
        then []
        else [last (engines (dub_steps w
             (new_events (process_line w tool_config line_config worksheet_url output_dir) tr)))])
   \<and> fst (process_line (with_clean_up w f) tool_config line_config worksheet_url output_dir tr)
     = fst (process_line w tool_config line_config worksheet_url output_dir tr)"
proof -
  obtain r lc' tr' where p: "process_line w tool_config line_config worksheet_url output_dir tr = ((r, lc'), tr')"
    by (metis surj_pair)
  from process_line_events[OF p] obtain evs where e: "tr' = tr @ evs"
    "clean_ups evs = (if engines (dub_steps w evs) = [] then []
                             else [last (engines (dub_steps w evs))])" by blast
  from p e(1) have "new_events (process_line w tool_config line_config worksheet_url output_dir) tr = evs"
    by (simp add: new_events_def)
  with e(2) show ?thesis by (simp add: process_line_with_clean_up)
qed

text \<open>The theorem at the sample row: two engines are built, the German one is cleaned up, and
  a failing \<^verbatim>\<open>clean_up()\<close> changes nothing.\<close>

theorem clean_up_on_last_engine_witness:
  "map target_language (clean_ups (new_events (process_line (sample_world calm) sample_tool_config
        sample_line (PStr ''https://sheet'') ''/tmp/ariel'') [])) = [PStr ''de'']
   \<and> map target_language (engines (dub_steps (sample_world calm) (new_events (process_line
        (sample_world calm) sample_tool_config sample_line (PStr ''https://sheet'') ''/tmp/ariel'') [])))
      = [PStr ''fr'', PStr ''de'']
   \<and> fst (process_line (with_clean_up (sample_world calm) (\<lambda>h d. Some ''cannot remove directory''))
        sample_tool_config sample_line (PStr ''https://sheet'') ''/tmp/ariel'' [])
      = fst (process_line (sample_world calm) sample_tool_config sample_line
        (PStr ''https://sheet'') ''/tmp/ariel'' [])"
proof -
  have e: "map target_language (engines (dub_steps (sample_world calm) (new_events (process_line
        (sample_world calm) sample_tool_config sample_line (PStr ''https://sheet'') ''/tmp/ariel'') [])))
      = [PStr ''fr'', PStr ''de'']"
    by code_simp
  then have ne: "engines (dub_steps (sample_world calm) (new_events (process_line
        (sample_world calm) sample_tool_config sample_line (PStr ''https://sheet'') ''/tmp/ariel'') [])) \<noteq> []"
    by auto
  note inst = clean_up_on_last_engine[of "sample_world calm" sample_tool_config sample_line
      "PStr ''https://sheet''" "''/tmp/ariel''" "[]" "\<lambda>h d. Some ''cannot remove directory''"]
  from inst ne have "map target_language (clean_ups (new_events (process_line (sample_world calm)
        sample_tool_config sample_line (PStr ''https://sheet'') ''/tmp/ariel'') []))
      = [last (map target_language (engines (dub_steps (sample_world calm) (new_events (process_line
        (sample_world calm) sample_tool_config sample_line (PStr ''https://sheet'') ''/tmp/ariel'') []))))]"
    by (simp add: last_map)
  with e inst show ?thesis by simp
qed

text \<open>
  As stated, C7 fails for an invocation that builds no engine: the source video is missing,
  the row fails, and \<^verbatim>\<open>clean_up()\<close> is never called.
\<close>

theorem clean_up_skipped_when_download_fails:
  "clean_ups (snd (process_line (sample_world video_missing) sample_tool_config sample_line
       (PStr ''https://sheet'') ''/tmp/ariel'' [])) = []
   \<and> fst (fst (process_line (sample_world video_missing) sample_tool_config sample_line
       (PStr ''https://sheet'') ''/tmp/ariel'' []))
     = Inr (''FAILED'', ''404 No such object: bkt/in.mp4'')"
  by code_simp

subsection \<open>C8: The failure message\<close>




subsection \<open>C9: Boolean fields of the engine configuration\<close>

text \<open>
  Claim C9, on the default row: \<^verbatim>\<open>adjust_speed\<close>, \<^verbatim>\<open>with_verification\<close> and
  \<^verbatim>\<open>elevenlabs_clone_voices\<close> reach the engine as booleans, \<^verbatim>\<open>merge_utterances\<close> and
  \<^verbatim>\<open>clean_up\<close> as the cell text; the text \<^verbatim>\<open>False\<close> is a true value in Python.
\<close>

theorem boolean_fields_passed_as_text:
  "map_sum id (\<lambda>d. (merge_utterances d, clean_up d, truthy (clean_up d),
                     adjust_speed d, with_verification d, elevenlabs_clone_voices d))
     (dubber_arguments (sample_world calm) sample_tool_config sample_line ''/tmp/ariel''
        ''/tmp/ariel/in.mp4'')
   = Inr (PStr ''True'', PStr ''False'', True, True, False, False)"
  by code_simp

subsection \<open>C10: A row with no target language\<close>




end
